theory Spec2Isabelle
  imports Main "HOL-Library.Word"
begin

unbundle bit_operations_syntax

section \<open>Values exchanged with the JIT library\<close>

text \<open>
  The linking layer of \<^verbatim>\<open>JitCpp\<close> (class \<^verbatim>\<open>ScoreLinkingLayer\<close>) is written against
  LLVM's ORC interfaces. Module keys and target addresses are 64-bit unsigned integers there.
\<close>

type_synonym VModuleKey = "64 word"
type_synonym JITTargetAddress = "64 word"

text \<open>\<^verbatim>\<open>llvm::Error\<close>: success, or a \<^verbatim>\<open>StringError\<close> carrying a message.\<close>

datatype Error = Success | StringError string

text \<open>
  An \<^verbatim>\<open>assert\<close> that fails aborts the process. Every operation that contains an assertion
  returns an \<open>outcome\<close>: the failed assertion's message, or the value the call returns.
\<close>

datatype 'a outcome = AssertionFailed string | Returned 'a

definition andThen :: "'a outcome \<Rightarrow> ('a \<Rightarrow> 'b outcome) \<Rightarrow> 'b outcome" where
  "andThen r f = (case r of AssertionFailed m \<Rightarrow> AssertionFailed m | Returned x \<Rightarrow> f x)"

text \<open>Of the symbol flags the layer reads only \<^verbatim>\<open>isExported()\<close>.\<close>

datatype JITSymbolFlags = JITSymbolFlags (isExported: bool)

datatype JITEvaluatedSymbol =
  JITEvaluatedSymbol (getAddress: JITTargetAddress) (getFlags: JITSymbolFlags)

text \<open>
  One entry of \<^verbatim>\<open>Obj.getBinary()->symbols()\<close>: \<^verbatim>\<open>getFlags()\<close> and \<^verbatim>\<open>getName()\<close> are
  \<^verbatim>\<open>Expected\<close> values (\<open>None\<close> is the error state), \<^verbatim>\<open>JITSymbolFlags::fromObjectSymbol\<close>
  gives the JIT flags.
\<close>

record SymbolRef =
  symFlags :: "32 word option"
  symName :: "string option"
  fromObjectSymbol :: JITSymbolFlags

type_synonym ObjectFile = "SymbolRef list"

text \<open>\<^verbatim>\<open>object::SymbolRef::SF_Undefined\<close> is bit 0 of the flag word.\<close>

definition SF_Undefined :: "32 word" where
  "SF_Undefined = 1"

text \<open>
  A memory buffer is represented by what \<^verbatim>\<open>object::ObjectFile::createObjectFile\<close> makes
  of it: an error message, or the parsed object file.
\<close>

datatype MemoryBuffer = MemoryBuffer (createObjectFile: "string + ObjectFile")

text \<open>
  \<^verbatim>\<open>GetResources(K)\<close> hands out the memory manager and the symbol resolver for a module.
  With the object they decide what the \<^verbatim>\<open>RuntimeDyld\<close> instance created in \<^verbatim>\<open>finalize\<close>
  reports: the symbol table \<^verbatim>\<open>getSymbolTable()\<close> returns once \<^verbatim>\<open>loadObject\<close> has run, and
  the error state \<^verbatim>\<open>hasError()\<close>/\<^verbatim>\<open>getErrorString()\<close> shows after
  \<^verbatim>\<open>finalizeWithMemoryManagerLocking\<close>. The model keeps these two reports in place of
  the two pointers; they are parameters of every statement below.
\<close>

record Resources =
  dyldSymbolTable :: "string \<rightharpoonup> JITEvaluatedSymbol"
  dyldError :: "string option"

text \<open>
  The calls a linked object makes on its \<^verbatim>\<open>RuntimeDyld\<close>, on its memory manager and on the
  notification functors of the layer, in the order they happen.
\<close>

datatype Call =
    LoadObject
  | NotifyLoadedCall VModuleKey
  | FinalizeWithMemoryManagerLocking
  | NotifyFinalizedCall VModuleKey
  | NotifyFreedCall VModuleKey
  | DeregisterEHFrames

text \<open>
  \<^verbatim>\<open>JITSymbol\<close> as the layer builds it: from \<^verbatim>\<open>nullptr\<close>, from an error, from an evaluated
  symbol (address and flags), or from a materializer functor and flags. The functor made by
  \<^verbatim>\<open>getSymbolMaterializer\<close> captures \<^verbatim>\<open>this\<close> and the name; the object is identified here
  by its module key.
\<close>

datatype JITSymbol =
    Null
  | ErrorSymbol string
  | Evaluated JITEvaluatedSymbol
  | Materializer VModuleKey string JITSymbolFlags

text \<open>
  \<^verbatim>\<open>JITSymbol::operator bool\<close> is
  \<^verbatim>\<open>!Flags.hasError() && (CachedAddr || GetAddress)\<close>: a symbol built from an evaluated
  symbol whose address is 0 converts to false, like the null symbol.
\<close>

fun toBool :: "JITSymbol \<Rightarrow> bool" where
  "toBool Null = False"
| "toBool (ErrorSymbol e) = False"
| "toBool (Evaluated s) = (getAddress s \<noteq> 0)"
| "toBool (Materializer k n f) = True"

text \<open>\<^verbatim>\<open>JITSymbol::takeError\<close>: the stored error when the error flag is set, else success.\<close>

fun takeError :: "JITSymbol \<Rightarrow> Error" where
  "takeError (ErrorSymbol e) = StringError e"
| "takeError s = Success"

section \<open>std::map keyed by module key\<close>

text \<open>
  \<^verbatim>\<open>std::map<VModuleKey, std::unique_ptr<LinkedObject>>\<close> is an association list kept in
  ascending key order with one entry per key; iteration visits the list front to back.
\<close>

fun map_count :: "'k \<Rightarrow> ('k \<times> 'v) list \<Rightarrow> bool" where
  "map_count k [] = False"
| "map_count k ((k', v) # m) = (k = k' \<or> map_count k m)"

fun map_at :: "'k \<Rightarrow> ('k \<times> 'v) list \<Rightarrow> 'v option" where
  "map_at k [] = None"
| "map_at k ((k', v) # m) = (if k = k' then Some v else map_at k m)"

text \<open>\<^verbatim>\<open>m[k] = v\<close>: replace the entry of \<open>k\<close>, or insert one at its place in the order.\<close>

fun map_assign :: "'k::linorder \<Rightarrow> 'v \<Rightarrow> ('k \<times> 'v) list \<Rightarrow> ('k \<times> 'v) list" where
  "map_assign k v [] = [(k, v)]"
| "map_assign k v ((k', v') # m) =
     (if k = k' then (k, v) # m
      else if k < k' then (k, v) # (k', v') # m
      else (k', v') # map_assign k v m)"

text \<open>\<^verbatim>\<open>m.erase(k)\<close>.\<close>

fun map_erase :: "'k \<Rightarrow> ('k \<times> 'v) list \<Rightarrow> ('k \<times> 'v) list" where
  "map_erase k [] = []"
| "map_erase k ((k', v) # m) = (if k = k' then m else (k', v) # map_erase k m)"

section \<open>Linked objects\<close>

text \<open>
  \<^verbatim>\<open>PreFinalizeContents\<close>: what a linked object holds until it is finalized. \<open>RTDyld\<close> tells
  whether the \<^verbatim>\<open>RuntimeDyld\<close> instance has been created.
\<close>

record PreFinalizeContents =
  Obj :: ObjectFile
  Resolver :: Resources
  PFC_ProcessAllSections :: bool
  RTDyld :: bool

text \<open>
  \<^verbatim>\<open>ConcreteLinkedObject\<close> with the members of its base class \<^verbatim>\<open>LinkedObject\<close>. \<open>ObjKey\<close>
  is the member \<^verbatim>\<open>K\<close>; \<open>Calls\<close> is the history of the calls the object has made.
\<close>

record LinkedObject =
  SymbolTable :: "string \<rightharpoonup> JITEvaluatedSymbol"
  Finalized :: bool
  ObjKey :: VModuleKey
  ObjForNotify :: "ObjectFile option"
  PFC :: "PreFinalizeContents option"
  Calls :: "Call list"

text \<open>
  \<^verbatim>\<open>ScoreLinkingLayer\<close>. The three notification functors are represented by whether they
  are set; \<open>Freed\<close> collects the calls made by the destructors of removed objects.
\<close>

record ScoreLinkingLayer =
  LinkedObjects :: "(VModuleKey \<times> LinkedObject) list"
  GetResources :: "VModuleKey \<Rightarrow> Resources"
  NotifyLoaded :: bool
  NotifyFinalized :: bool
  NotifyFreed :: bool
  ProcessAllSections :: bool
  Freed :: "Call list"

text \<open>
  \<^verbatim>\<open>buildInitialSymbolTable\<close>: a symbol whose flags cannot be read or that is undefined is
  skipped; every other symbol is inserted under its name with address 0, and
  \<^verbatim>\<open>StringMap::insert\<close> keeps an entry that is already there. The name is printed with
  \<^verbatim>\<open>SymbolName.get()\<close> before \<^verbatim>\<open>SymbolName\<close> is tested, and \<^verbatim>\<open>Expected::get\<close> asserts that
  there is a value.
\<close>

fun buildInitialSymbolTable ::
  "ObjectFile \<Rightarrow> (string \<rightharpoonup> JITEvaluatedSymbol) \<Rightarrow> (string \<rightharpoonup> JITEvaluatedSymbol) outcome" where
  "buildInitialSymbolTable [] tab = Returned tab"
| "buildInitialSymbolTable (Symbol # rest) tab =
     (case symFlags Symbol of
        None \<Rightarrow> buildInitialSymbolTable rest tab
      | Some flags \<Rightarrow>
          if flags AND SF_Undefined \<noteq> 0 then buildInitialSymbolTable rest tab
          else (case symName Symbol of
                  None \<Rightarrow> AssertionFailed ''Cannot get value when an error exists!''
                | Some SymbolName \<Rightarrow>
                    buildInitialSymbolTable rest
                      (if tab SymbolName = None
                       then tab(SymbolName \<mapsto> JITEvaluatedSymbol 0 (fromObjectSymbol Symbol))
                       else tab)))"

text \<open>The constructor of \<^verbatim>\<open>ConcreteLinkedObject\<close>, reached through \<^verbatim>\<open>createLinkedObject\<close>.\<close>

definition createLinkedObject ::
  "VModuleKey \<Rightarrow> ObjectFile \<Rightarrow> Resources \<Rightarrow> bool \<Rightarrow> LinkedObject outcome" where
  "createLinkedObject k obj res pas =
     andThen (buildInitialSymbolTable obj Map.empty) (\<lambda>tab. Returned
       \<lparr> SymbolTable = tab, Finalized = False, ObjKey = k, ObjForNotify = None,
         PFC = Some \<lparr> Obj = obj, Resolver = res, PFC_ProcessAllSections = pas, RTDyld = False \<rparr>,
         Calls = [] \<rparr>)"

text \<open>\<^verbatim>\<open>LinkedObject::getSymbol\<close>.\<close>

definition getSymbol :: "LinkedObject \<Rightarrow> string \<Rightarrow> bool \<Rightarrow> JITSymbol" where
  "getSymbol this Name ExportedSymbolsOnly =
     (case SymbolTable this Name of
        None \<Rightarrow> Null
      | Some SymEntry \<Rightarrow>
          if \<not> isExported (getFlags SymEntry) \<and> ExportedSymbolsOnly then Null
          else if \<not> Finalized this then Materializer (ObjKey this) Name (getFlags SymEntry)
          else Evaluated SymEntry)"

text \<open>
  \<^verbatim>\<open>ConcreteLinkedObject::finalize\<close>, in the three stretches between which control is
  outside the layer. \<open>finalize_mark\<close>: create the \<^verbatim>\<open>RuntimeDyld\<close> instance and set
  \<^verbatim>\<open>Finalized\<close>.
\<close>

definition finalize_mark :: "PreFinalizeContents \<Rightarrow> LinkedObject \<Rightarrow> LinkedObject" where
  "finalize_mark pfc this = this \<lparr> PFC := Some (pfc \<lparr> RTDyld := True \<rparr>), Finalized := True \<rparr>"

text \<open>
  \<open>finalize_load\<close>: \<^verbatim>\<open>loadObject\<close>, the copy of the symbol table of \<^verbatim>\<open>RuntimeDyld\<close> over
  the own one (\<^verbatim>\<open>SymbolTable[KV.first] = KV.second\<close>), and \<^verbatim>\<open>NotifyLoaded\<close>.
\<close>

definition finalize_load ::
  "ScoreLinkingLayer \<Rightarrow> PreFinalizeContents \<Rightarrow> LinkedObject \<Rightarrow> LinkedObject" where
  "finalize_load Parent pfc this =
     this \<lparr> SymbolTable := SymbolTable this ++ dyldSymbolTable (Resolver pfc),
            Calls := Calls this @ [LoadObject] @
              (if NotifyLoaded Parent then [NotifyLoadedCall (ObjKey this)] else []) \<rparr>"

text \<open>
  \<open>finalize_link\<close>: \<^verbatim>\<open>finalizeWithMemoryManagerLocking\<close>, then the test of \<^verbatim>\<open>hasError\<close>;
  without an error \<^verbatim>\<open>NotifyFinalized\<close> and the release of the pre-finalize contents.
\<close>

definition finalize_link ::
  "ScoreLinkingLayer \<Rightarrow> PreFinalizeContents \<Rightarrow> LinkedObject \<Rightarrow> Error \<times> LinkedObject" where
  "finalize_link Parent pfc this =
     (let this1 = this \<lparr> Calls := Calls this @ [FinalizeWithMemoryManagerLocking] \<rparr> in
      case dyldError (Resolver pfc) of
        Some msg \<Rightarrow> (StringError msg, this1)
      | None \<Rightarrow>
          (Success,
           this1 \<lparr> Calls := Calls this1 @
                     (if NotifyFinalized Parent then [NotifyFinalizedCall (ObjKey this)] else []),
                   ObjForNotify := (if NotifyFreed Parent then Some (Obj pfc) else ObjForNotify this),
                   PFC := None \<rparr>))"

definition finalize :: "ScoreLinkingLayer \<Rightarrow> LinkedObject \<Rightarrow> (Error \<times> LinkedObject) outcome" where
  "finalize Parent this =
     (case PFC this of
        None \<Rightarrow> AssertionFailed ''mapSectionAddress called on finalized LinkedObject''
      | Some pfc \<Rightarrow>
          Returned (finalize_link Parent pfc (finalize_load Parent pfc (finalize_mark pfc this))))"

text \<open>
  The address a symbol returned by \<open>getSymbol\<close> of a finalized object yields under
  \<^verbatim>\<open>getAddress()\<close>: the cached address, which is 0 for the null symbol.
\<close>

fun cachedAddr :: "JITSymbol \<Rightarrow> JITTargetAddress" where
  "cachedAddr (Evaluated s) = getAddress s"
| "cachedAddr s = 0"

text \<open>
  \<open>getSymbolMaterializer Parent Name this\<close> runs the functor \<^verbatim>\<open>getSymbolMaterializer(Name)\<close>
  returns, on the object \<open>this\<close> it captured. Its
  result is an \<^verbatim>\<open>Expected<JITTargetAddress>\<close>: \<open>Inl\<close> the error message, \<open>Inr\<close> the address.
  The last line calls \<^verbatim>\<open>getSymbol(Name, false).getAddress()\<close>; were that symbol a
  materializer again the call would recurse, which the model reports as a failure (lemma
  \<open>materializer_no_recursion\<close> shows that it never happens).
\<close>

definition materializerAddress :: "LinkedObject \<Rightarrow> string \<Rightarrow> (string + JITTargetAddress) outcome" where
  "materializerAddress this Name =
     (case getSymbol this Name False of
        Materializer k n f \<Rightarrow> AssertionFailed ''materializer re-entered''
      | s \<Rightarrow> Returned (Inr (cachedAddr s)))"

definition getSymbolMaterializer ::
  "ScoreLinkingLayer \<Rightarrow> string \<Rightarrow> LinkedObject \<Rightarrow> ((string + JITTargetAddress) \<times> LinkedObject) outcome" where
  "getSymbolMaterializer Parent Name this =
     (if \<not> Finalized this then
        andThen (finalize Parent this) (\<lambda>(Err, this').
          case Err of
            StringError msg \<Rightarrow> Returned (Inl msg, this')
          | Success \<Rightarrow> andThen (materializerAddress this' Name) (\<lambda>a. Returned (a, this')))
      else andThen (materializerAddress this Name) (\<lambda>a. Returned (a, this)))"

text \<open>The destructor of \<^verbatim>\<open>ConcreteLinkedObject\<close>: the calls it makes.\<close>

definition destroy :: "ScoreLinkingLayer \<Rightarrow> LinkedObject \<Rightarrow> Call list" where
  "destroy Parent this =
     (if NotifyFreed Parent then [NotifyFreedCall (ObjKey this)] else []) @ [DeregisterEHFrames]"

section \<open>The linking layer\<close>

text \<open>\<^verbatim>\<open>ScoreLinkingLayer::addObject\<close>.\<close>

definition addObject ::
  "ScoreLinkingLayer \<Rightarrow> VModuleKey \<Rightarrow> MemoryBuffer \<Rightarrow> (Error \<times> ScoreLinkingLayer) outcome" where
  "addObject L k ObjBuffer =
     (case createObjectFile ObjBuffer of
        Inl err \<Rightarrow> Returned (StringError err, L)
      | Inr obj \<Rightarrow>
          if map_count k (LinkedObjects L) then AssertionFailed ''VModuleKey already in use''
          else andThen (createLinkedObject k obj (GetResources L k) (ProcessAllSections L))
                 (\<lambda>lo. Returned (Success, L \<lparr> LinkedObjects := map_assign k lo (LinkedObjects L) \<rparr>)))"

text \<open>\<^verbatim>\<open>ScoreLinkingLayer::removeObject\<close>; erasing the entry destroys the object.\<close>

definition removeObject ::
  "ScoreLinkingLayer \<Rightarrow> VModuleKey \<Rightarrow> (Error \<times> ScoreLinkingLayer) outcome" where
  "removeObject L k =
     (case map_at k (LinkedObjects L) of
        None \<Rightarrow> AssertionFailed ''VModuleKey not associated with object''
      | Some lo \<Rightarrow>
          Returned (Success, L \<lparr> LinkedObjects := map_erase k (LinkedObjects L),
                                 Freed := Freed L @ destroy L lo \<rparr>))"

text \<open>\<^verbatim>\<open>ScoreLinkingLayer::findSymbol\<close>: the loop over the map, then the function.\<close>

fun findSymbol_loop :: "(VModuleKey \<times> LinkedObject) list \<Rightarrow> string \<Rightarrow> bool \<Rightarrow> JITSymbol" where
  "findSymbol_loop [] Name ExportedSymbolsOnly = Null"
| "findSymbol_loop (KV # rest) Name ExportedSymbolsOnly =
     (let Sym = getSymbol (snd KV) Name ExportedSymbolsOnly in
      if toBool Sym then Sym
      else (case takeError Sym of
              StringError err \<Rightarrow> ErrorSymbol err
            | Success \<Rightarrow> findSymbol_loop rest Name ExportedSymbolsOnly))"

definition findSymbol :: "ScoreLinkingLayer \<Rightarrow> string \<Rightarrow> bool \<Rightarrow> JITSymbol" where
  "findSymbol L Name ExportedSymbolsOnly = findSymbol_loop (LinkedObjects L) Name ExportedSymbolsOnly"

text \<open>\<^verbatim>\<open>ScoreLinkingLayer::findSymbolIn\<close>.\<close>

definition findSymbolIn :: "ScoreLinkingLayer \<Rightarrow> VModuleKey \<Rightarrow> string \<Rightarrow> bool \<Rightarrow> JITSymbol outcome" where
  "findSymbolIn L k Name ExportedSymbolsOnly =
     (case map_at k (LinkedObjects L) of
        None \<Rightarrow> AssertionFailed ''VModuleKey not associated with object''
      | Some lo \<Rightarrow> Returned (getSymbol lo Name ExportedSymbolsOnly))"

text \<open>\<^verbatim>\<open>ScoreLinkingLayer::emitAndFinalize\<close>.\<close>

definition emitAndFinalize ::
  "ScoreLinkingLayer \<Rightarrow> VModuleKey \<Rightarrow> (Error \<times> ScoreLinkingLayer) outcome" where
  "emitAndFinalize L k =
     (case map_at k (LinkedObjects L) of
        None \<Rightarrow> AssertionFailed ''VModuleKey not associated with object''
      | Some lo \<Rightarrow>
          andThen (finalize L lo) (\<lambda>(Err, lo').
            Returned (Err, L \<lparr> LinkedObjects := map_assign k lo' (LinkedObjects L) \<rparr>)))"

text \<open>A layer as its constructor leaves it: no object, \<^verbatim>\<open>ProcessAllSections\<close> false.\<close>

definition newLayer :: "(VModuleKey \<Rightarrow> Resources) \<Rightarrow> bool \<Rightarrow> bool \<Rightarrow> bool \<Rightarrow> ScoreLinkingLayer" where
  "newLayer gr nl nf nfr =
     \<lparr> LinkedObjects = [], GetResources = gr, NotifyLoaded = nl, NotifyFinalized = nf,
       NotifyFreed = nfr, ProcessAllSections = False, Freed = [] \<rparr>"

section \<open>The application plugin\<close>

text \<open>
  \<^verbatim>\<open>Jit::ApplicationPlugin\<close>, as far as \<^verbatim>\<open>setupAddon\<close> and \<^verbatim>\<open>registerAddon\<close> touch it. The
  compiler \<^verbatim>\<open>m_compiler\<close> is represented by the jobs handed to \<^verbatim>\<open>submitJob\<close>, in order;
  \<open>registered\<close> lists the plugins passed to \<^verbatim>\<open>registerPlugin\<close> by \<^verbatim>\<open>registerAddon\<close>, the
  slot connected to the compiler's \<^verbatim>\<open>jobCompleted\<close> signal; \<open>debugOut\<close> lists the items
  written to \<^verbatim>\<open>qDebug\<close>.
\<close>

record Job =
  jobId :: string
  jobFiles :: "string list"
  jobFlags :: "string list"

record ApplicationPlugin =
  m_compiler :: "Job list"
  registered :: "string list"
  debugOut :: "string list"

text \<open>\<^verbatim>\<open>QFileInfo::fileName\<close>: the part of the path after the last slash.\<close>

definition fileName :: "string \<Rightarrow> string" where
  "fileName path = rev (takeWhile (\<lambda>c. c \<noteq> CHR ''/'') (rev path))"

text \<open>
  \<^verbatim>\<open>setupAddon\<close>. The functions \<^verbatim>\<open>loadAddon\<close> (giving the \<^verbatim>\<open>key\<close> entry of the addon's JSON
  description, its C++ files and its other files) and \<^verbatim>\<open>generateAddonFiles\<close> are parameters.
\<close>

definition setupAddon ::
  "(string \<Rightarrow> string \<times> string list \<times> 'f) \<Rightarrow> (string \<Rightarrow> string \<Rightarrow> 'f \<Rightarrow> string) \<Rightarrow>
   string \<Rightarrow> ApplicationPlugin \<Rightarrow> ApplicationPlugin" where
  "setupAddon loadAddon generateAddonFiles addon this =
     (let this1 = this \<lparr> debugOut := debugOut this @ [''Registering JIT addon'', addon] \<rparr>;
          addonFolderName = fileName addon
      in if addonFolderName = ''Nodes'' then this1
         else (case loadAddon addon of (key, cpp_files, files) \<Rightarrow>
           if cpp_files = [] then this1
           else
             let addon_files_path = generateAddonFiles addonFolderName addon files;
                 flags = [''-I'' @ addon, ''-I'' @ addon_files_path];
                 ident = filter (\<lambda>c. c \<noteq> CHR ''-'') key
             in this1 \<lparr> m_compiler := m_compiler this1 @
                          [\<lparr> jobId = ident, jobFiles = cpp_files, jobFlags = flags \<rparr>] \<rparr>))"

text \<open>\<^verbatim>\<open>registerAddon\<close>: the plugin is registered with the application.\<close>

definition registerAddon :: "string \<Rightarrow> ApplicationPlugin \<Rightarrow> ApplicationPlugin" where
  "registerAddon p this =
     this \<lparr> registered := registered this @ [p],
            debugOut := debugOut this @ [''registerAddon => '', ''JIT addon registered''] \<rparr>"

section \<open>Sample inputs\<close>

text \<open>An object file defining one exported symbol, and buffers holding such files.\<close>

definition exported :: JITSymbolFlags where
  "exported = JITSymbolFlags True"

definition definedSymbol :: "string \<Rightarrow> SymbolRef" where
  "definedSymbol n = \<lparr> symFlags = Some 2, symName = Some n, fromObjectSymbol = exported \<rparr>"

definition bufferDefining :: "string \<Rightarrow> MemoryBuffer" where
  "bufferDefining n = MemoryBuffer (Inr [definedSymbol n])"

text \<open>
  Resources with which \<^verbatim>\<open>RuntimeDyld\<close> places the symbol \<open>n\<close> at address \<open>a\<close> and reports
  the error \<open>e\<close>, if any.
\<close>

definition placing :: "string \<Rightarrow> JITTargetAddress \<Rightarrow> string option \<Rightarrow> Resources" where
  "placing n a e = \<lparr> dyldSymbolTable = [n \<mapsto> JITEvaluatedSymbol a exported], dyldError = e \<rparr>"

text \<open>Resources with which \<^verbatim>\<open>RuntimeDyld\<close> places no symbol.\<close>

definition placingNothing :: "string option \<Rightarrow> Resources" where
  "placingNothing e = \<lparr> dyldSymbolTable = Map.empty, dyldError = e \<rparr>"

text \<open>
  The state every sequence of layer operations keeps: the map is in strictly ascending key
  order (so each key occurs once), and each object is stored under its own key.
\<close>

definition layerInv :: "ScoreLinkingLayer \<Rightarrow> bool" where
  "layerInv L \<longleftrightarrow>
     sorted_wrt (<) (map fst (LinkedObjects L)) \<and>
     list_all (\<lambda>(k, lo). ObjKey lo = k) (LinkedObjects L)"

text \<open>
  What holds of an object that is not marked finalized: it still has its pre-finalize
  contents, and every entry of its symbol table has address 0.
\<close>

definition objInv :: "LinkedObject \<Rightarrow> bool" where
  "objInv this \<longleftrightarrow>
     (\<not> Finalized this \<longrightarrow>
        PFC this \<noteq> None \<and> (\<forall>n s. SymbolTable this n = Some s \<longrightarrow> getAddress s = 0))"

text \<open>
  A layer without notification functors whose \<^verbatim>\<open>GetResources\<close> hands out the same
  resources for each key, and such a layer holding the given objects.
\<close>

definition plainLayer :: "Resources \<Rightarrow> ScoreLinkingLayer" where
  "plainLayer res = newLayer (\<lambda>k. res) False False False"

definition layerWith :: "Resources \<Rightarrow> (VModuleKey \<times> LinkedObject) list \<Rightarrow> ScoreLinkingLayer" where
  "layerWith res objs = (plainLayer res) \<lparr> LinkedObjects := objs \<rparr>"

text \<open>
  The object the constructor builds for a file defining the exported symbol \<open>n\<close>; the same
  object after a \<open>finalize\<close> that placed \<open>n\<close> at \<open>a\<close>; and after a \<open>finalize\<close> that placed it
  and then reported an error.
\<close>

definition freshObject :: "VModuleKey \<Rightarrow> string \<Rightarrow> Resources \<Rightarrow> LinkedObject" where
  "freshObject k n res =
     \<lparr> SymbolTable = [n \<mapsto> JITEvaluatedSymbol 0 exported], Finalized = False, ObjKey = k,
       ObjForNotify = None,
       PFC = Some \<lparr> Obj = [definedSymbol n], Resolver = res, PFC_ProcessAllSections = False,
                    RTDyld = False \<rparr>,
       Calls = [] \<rparr>"

definition linkedObject :: "VModuleKey \<Rightarrow> string \<Rightarrow> JITTargetAddress \<Rightarrow> LinkedObject" where
  "linkedObject k n a =
     \<lparr> SymbolTable = [n \<mapsto> JITEvaluatedSymbol a exported], Finalized = True, ObjKey = k,
       ObjForNotify = None, PFC = None,
       Calls = [LoadObject, FinalizeWithMemoryManagerLocking] \<rparr>"

definition failedObject ::
  "VModuleKey \<Rightarrow> string \<Rightarrow> JITTargetAddress \<Rightarrow> Resources \<Rightarrow> LinkedObject" where
  "failedObject k n a res =
     \<lparr> SymbolTable = [n \<mapsto> JITEvaluatedSymbol a exported], Finalized = True, ObjKey = k,
       ObjForNotify = None,
       PFC = Some \<lparr> Obj = [definedSymbol n], Resolver = res, PFC_ProcessAllSections = False,
                    RTDyld = True \<rparr>,
       Calls = [LoadObject, FinalizeWithMemoryManagerLocking] \<rparr>"

text \<open>
  The sample object inside \<open>finalize\<close>: after \<open>finalize_mark\<close>, and after \<open>finalize_load\<close> has
  placed \<open>n\<close> at \<open>a\<close>; and the pre-finalize contents the constructor gives it.
\<close>

definition markedObject :: "VModuleKey \<Rightarrow> string \<Rightarrow> Resources \<Rightarrow> LinkedObject" where
  "markedObject k n res =
     \<lparr> SymbolTable = [n \<mapsto> JITEvaluatedSymbol 0 exported], Finalized = True, ObjKey = k,
       ObjForNotify = None,
       PFC = Some \<lparr> Obj = [definedSymbol n], Resolver = res, PFC_ProcessAllSections = False,
                    RTDyld = True \<rparr>,
       Calls = [] \<rparr>"

definition loadedObject :: "VModuleKey \<Rightarrow> string \<Rightarrow> JITTargetAddress \<Rightarrow> Resources \<Rightarrow> LinkedObject" where
  "loadedObject k n a res =
     \<lparr> SymbolTable = [n \<mapsto> JITEvaluatedSymbol a exported], Finalized = True, ObjKey = k,
       ObjForNotify = None,
       PFC = Some \<lparr> Obj = [definedSymbol n], Resolver = res, PFC_ProcessAllSections = False,
                    RTDyld = True \<rparr>,
       Calls = [LoadObject] \<rparr>"

definition freshPFC :: "string \<Rightarrow> Resources \<Rightarrow> PreFinalizeContents" where
  "freshPFC n res =
     \<lparr> Obj = [definedSymbol n], Resolver = res, PFC_ProcessAllSections = False, RTDyld = False \<rparr>"

text \<open>
  Resources with which \<^verbatim>\<open>RuntimeDyld\<close> loads the object and then fails to resolve a reference,
  and resources with which it cannot load the object at all.
\<close>

definition unresolvedResources :: Resources where
  "unresolvedResources = placing ''run_addonB'' 0x1000 (Some ''Symbols not found: [ missing_fn ]'')"

definition loadFailure :: Resources where
  "loadFailure = placingNothing (Some ''Unable to load object'')"

text \<open>
  A layer without notification functors whose \<^verbatim>\<open>GetResources\<close> places the symbol \<open>n\<close> of the
  module with key \<open>k\<close> at \<open>0x1000 * k\<close>, holding the given objects.
\<close>

definition perKeyLayer :: "string \<Rightarrow> (VModuleKey \<times> LinkedObject) list \<Rightarrow> ScoreLinkingLayer" where
  "perKeyLayer n objs =
     (newLayer (\<lambda>k. placing n (0x1000 * k) None) False False False) \<lparr> LinkedObjects := objs \<rparr>"

text \<open>
  A plugin that has done nothing yet; an addon description without C++ files and one with a
  single file; and a stand-in for \<^verbatim>\<open>generateAddonFiles\<close>.
\<close>

definition noPlugin :: ApplicationPlugin where
  "noPlugin = \<lparr> m_compiler = [], registered = [], debugOut = [] \<rparr>"

definition emptyAddon :: "string \<Rightarrow> string \<times> string list \<times> unit" where
  "emptyAddon addon = (''0b1c-22'', [], ())"

definition oneFileAddon :: "string \<Rightarrow> string \<times> string list \<times> unit" where
  "oneFileAddon addon = (''0b1c-22'', [addon @ ''/main.cpp''], ())"

definition generatedHere :: "string \<Rightarrow> string \<Rightarrow> unit \<Rightarrow> string" where
  "generatedHere addonFolderName addon files = ''/tmp/'' @ addonFolderName"

section \<open>Properties of the map operations\<close>

lemma map_at_None_iff: "map_at k m = None \<longleftrightarrow> \<not> map_count k m"
  by (induction m) (auto split: if_splits)

lemma map_at_in_set: "map_at k m = Some v \<Longrightarrow> (k, v) \<in> set m"
  by (induction m) (auto split: if_splits)

lemma map_count_in_set: "(k, v) \<in> set m \<Longrightarrow> map_count k m"
  by (induction m) auto

lemma map_at_assign: "map_at k' (map_assign k v m) = (if k' = k then Some v else map_at k' m)"
  by (induction m) auto

lemma map_count_assign: "map_count k' (map_assign k v m) \<longleftrightarrow> k' = k \<or> map_count k' m"
  by (induction m) (auto split: if_splits)

lemma set_assign: "x \<in> set (map_assign k v m) \<Longrightarrow> x = (k, v) \<or> x \<in> set m"
  by (induction m) (auto split: if_splits)

lemma set_erase: "x \<in> set (map_erase k m) \<Longrightarrow> x \<in> set m"
  by (induction m) (auto split: if_splits)

lemma sorted_assign:
  "sorted_wrt (<) (map fst m) \<Longrightarrow> sorted_wrt (<) (map fst (map_assign k v m))"
proof (induction m)
  case Nil
  then show ?case by simp
next
  case (Cons p m)
  obtain k' v' where p: "p = (k', v')" by (cases p)
  from Cons.prems p have tail: "sorted_wrt (<) (map fst m)" and hd: "\<forall>x \<in> set m. k' < fst x"
    by auto
  show ?case
  proof (cases "k = k'")
    case True
    with Cons.prems p show ?thesis by auto
  next
    case False
    show ?thesis
    proof (cases "k < k'")
      case True
      with Cons.prems p \<open>k \<noteq> k'\<close> show ?thesis by auto
    next
      case False
      with \<open>k \<noteq> k'\<close> have "k' < k" by simp
      with hd have "\<forall>x \<in> set (map_assign k v m). k' < fst x"
        using set_assign [of _ k v m] by fastforce
      with Cons.IH [OF tail] p \<open>k \<noteq> k'\<close> False show ?thesis by simp
    qed
  qed
qed

lemma sorted_erase:
  "sorted_wrt (<) (map fst m) \<Longrightarrow> sorted_wrt (<) (map fst (map_erase k m))"
proof (induction m)
  case Nil
  then show ?case by simp
next
  case (Cons p m)
  obtain k' v' where p: "p = (k', v')" by (cases p)
  from Cons.prems p have tail: "sorted_wrt (<) (map fst m)" and hd: "\<forall>x \<in> set m. k' < fst x"
    by auto
  from hd have "\<forall>x \<in> set (map_erase k m). k' < fst x"
    using set_erase [of _ k m] by blast
  with Cons.IH [OF tail] tail p show ?case by simp
qed

lemma sorted_not_count:
  "sorted_wrt (<) (map fst ((k :: 'k :: linorder, v) # m)) \<Longrightarrow> \<not> map_count k m"
proof
  assume s: "sorted_wrt (<) (map fst ((k :: 'k, v) # m))" and c: "map_count k m"
  from c obtain w where "(k, w) \<in> set m"
    using map_at_None_iff [of k m] map_at_in_set [of k m] by (cases "map_at k m") auto
  moreover from s have "\<forall>x \<in> set m. k < fst x" by simp
  ultimately have "k < fst (k, w)" by blast
  then show False by simp
qed

lemma map_count_erase:
  "sorted_wrt (<) (map fst (m :: ('k :: linorder \<times> 'v) list)) \<Longrightarrow>
   map_count k' (map_erase k m) \<longleftrightarrow> k' \<noteq> k \<and> map_count k' m"
proof (induction m)
  case Nil
  then show ?case by simp
next
  case (Cons p m)
  obtain a b where p: "p = (a, b)" by (cases p)
  from Cons.prems p have tail: "sorted_wrt (<) (map fst m)" by simp
  from Cons.prems p have "\<not> map_count a m" using sorted_not_count [of a b m] by simp
  with Cons.IH [OF tail] p show ?case by (cases "k = a") auto
qed

lemma map_at_erase:
  "sorted_wrt (<) (map fst (m :: ('k :: linorder \<times> 'v) list)) \<Longrightarrow>
   map_at k' (map_erase k m) = (if k' = k then None else map_at k' m)"
proof (induction m)
  case Nil
  then show ?case by simp
next
  case (Cons p m)
  obtain a b where p: "p = (a, b)" by (cases p)
  from Cons.prems p have tail: "sorted_wrt (<) (map fst m)" by simp
  from Cons.prems p have "map_at a m = None"
    using sorted_not_count [of a b m] by (simp add: map_at_None_iff)
  with Cons.IH [OF tail] p show ?case by (cases "k = a") auto
qed



section \<open>Properties of a linked object\<close>

lemma finalize_Some:
  "PFC this = Some pfc \<Longrightarrow>
   finalize Parent this =
     Returned (finalize_link Parent pfc (finalize_load Parent pfc (finalize_mark pfc this)))"
  by (simp add: finalize_def)

lemma finalize_None:
  "PFC this = None \<Longrightarrow>
   finalize Parent this = AssertionFailed ''mapSectionAddress called on finalized LinkedObject''"
  by (simp add: finalize_def)

lemma finalize_link_fields:
  "Finalized (snd (finalize_link Parent pfc this)) = Finalized this"
  "SymbolTable (snd (finalize_link Parent pfc this)) = SymbolTable this"
  "ObjKey (snd (finalize_link Parent pfc this)) = ObjKey this"
  by (simp_all add: finalize_link_def Let_def split: option.splits)

lemma finalize_load_fields:
  "Finalized (finalize_load Parent pfc this) = Finalized this"
  "SymbolTable (finalize_load Parent pfc this) = SymbolTable this ++ dyldSymbolTable (Resolver pfc)"
  "ObjKey (finalize_load Parent pfc this) = ObjKey this"
  "PFC (finalize_load Parent pfc this) = PFC this"
  by (simp_all add: finalize_load_def)

lemma finalize_mark_fields:
  "Finalized (finalize_mark pfc this)"
  "SymbolTable (finalize_mark pfc this) = SymbolTable this"
  "ObjKey (finalize_mark pfc this) = ObjKey this"
  "Calls (finalize_mark pfc this) = Calls this"
  "PFC (finalize_mark pfc this) = Some (pfc \<lparr> RTDyld := True \<rparr>)"
  by (simp_all add: finalize_mark_def)

lemma finalize_Returned:
  assumes "finalize Parent this = Returned (e, this')"
  shows "Finalized this'" and "ObjKey this' = ObjKey this"
proof -
  from assms obtain pfc where pfc: "PFC this = Some pfc"
    by (cases "PFC this") (simp_all add: finalize_def)
  with assms have "this' = snd (finalize_link Parent pfc (finalize_load Parent pfc (finalize_mark pfc this)))"
    by (simp add: finalize_Some)
  then show "Finalized this'" and "ObjKey this' = ObjKey this"
    by (simp_all add: finalize_link_fields finalize_load_fields finalize_mark_fields)
qed

lemma finalize_Success_PFC:
  "finalize Parent this = Returned (Success, this') \<Longrightarrow> PFC this' = None"
  by (cases "PFC this")
     (auto simp: finalize_def finalize_link_def Let_def split: option.splits)

lemma getSymbol_Finalized:
  "Finalized this \<Longrightarrow> getSymbol this Name E \<noteq> Materializer k n f"
  by (simp add: getSymbol_def split: option.splits)

lemma getSymbol_not_Finalized:
  "\<not> Finalized this \<Longrightarrow> getSymbol this Name E \<noteq> Evaluated s"
  by (simp add: getSymbol_def split: option.splits)

lemma materializerAddress_Finalized:
  "Finalized this \<Longrightarrow>
   materializerAddress this Name = Returned (Inr (cachedAddr (getSymbol this Name False)))"
  by (simp add: materializerAddress_def getSymbol_def split: option.splits)

lemma materializer_Finalized:
  "Finalized this \<Longrightarrow>
   getSymbolMaterializer Parent Name this = Returned (Inr (cachedAddr (getSymbol this Name False)), this)"
  by (simp add: getSymbolMaterializer_def materializerAddress_Finalized andThen_def)

lemma materializer_not_Finalized:
  assumes "\<not> Finalized this" and "finalize Parent this = Returned (Err, this')"
  shows "getSymbolMaterializer Parent Name this =
           Returned (case Err of StringError msg \<Rightarrow> Inl msg
                     | Success \<Rightarrow> Inr (cachedAddr (getSymbol this' Name False)), this')"
proof -
  from assms(2) have "Finalized this'" by (rule finalize_Returned)
  then have "materializerAddress this' Name = Returned (Inr (cachedAddr (getSymbol this' Name False)))"
    by (rule materializerAddress_Finalized)
  with assms show ?thesis
    by (cases Err) (simp_all add: getSymbolMaterializer_def andThen_def)
qed

lemma materializer_Returned_Finalized:
  assumes "getSymbolMaterializer Parent Name this = Returned (r, this')"
  shows "Finalized this'"
proof (cases "Finalized this")
  case True
  with assms show ?thesis by (simp add: materializer_Finalized)
next
  case False
  with assms obtain Err where "finalize Parent this = Returned (Err, this')"
    by (cases "finalize Parent this")
       (auto simp: getSymbolMaterializer_def andThen_def split: Error.splits outcome.splits)
  then show ?thesis by (rule finalize_Returned)
qed

lemma materializer_no_recursion:
  "getSymbolMaterializer Parent Name this \<noteq> AssertionFailed ''materializer re-entered''"
proof (cases "Finalized this")
  case True
  then show ?thesis by (simp add: materializer_Finalized)
next
  case False
  show ?thesis
  proof (cases "finalize Parent this")
    case (AssertionFailed m)
    then have "PFC this = None" by (cases "PFC this") (simp_all add: finalize_def)
    with False show ?thesis by (simp add: getSymbolMaterializer_def andThen_def finalize_None)
  next
    case (Returned p)
    obtain Err this' where "p = (Err, this')" by (cases p)
    with Returned False show ?thesis by (simp add: materializer_not_Finalized)
  qed
qed



lemma createLinkedObject_fresh:
  "createLinkedObject k [definedSymbol n] res False = Returned (freshObject k n res)"
  by (simp add: createLinkedObject_def definedSymbol_def SF_Undefined_def andThen_def freshObject_def)

lemma finalize_fresh_placing:
  "finalize (plainLayer r) (freshObject k n (placing n a None)) = Returned (Success, linkedObject k n a)"
  by (simp add: finalize_def freshObject_def finalize_mark_def finalize_load_def finalize_link_def
      placing_def plainLayer_def newLayer_def linkedObject_def)

lemma finalize_fresh_failing:
  "finalize (plainLayer r) (freshObject k n (placing n a (Some msg))) =
     Returned (StringError msg, failedObject k n a (placing n a (Some msg)))"
  by (simp add: finalize_def freshObject_def finalize_mark_def finalize_load_def finalize_link_def
      placing_def plainLayer_def newLayer_def failedObject_def)

lemma finalize_fresh_placingNothing:
  "finalize (plainLayer r) (freshObject k n (placingNothing None)) = Returned (Success, linkedObject k n 0)"
  by (simp add: finalize_def freshObject_def finalize_mark_def finalize_load_def finalize_link_def
      placingNothing_def plainLayer_def newLayer_def linkedObject_def)

lemma finalize_extends_Calls:
  assumes "finalize Parent this = Returned (e, this')"
  shows "length (Calls this) < length (Calls this')"
proof -
  from assms obtain pfc where pfc: "PFC this = Some pfc"
    by (cases "PFC this") (simp_all add: finalize_def)
  with assms show ?thesis
    by (auto simp: finalize_def finalize_link_def finalize_load_def finalize_mark_def Let_def
        split: option.splits)
qed

lemma emitAndFinalize_Returned:
  assumes "emitAndFinalize L k = Returned (e, L')"
  obtains lo lo' where "map_at k (LinkedObjects L) = Some lo"
    and "finalize L lo = Returned (e, lo')"
    and "L' = L \<lparr> LinkedObjects := map_assign k lo' (LinkedObjects L) \<rparr>"
proof (cases "map_at k (LinkedObjects L)")
  case None
  with assms show ?thesis by (simp add: emitAndFinalize_def)
next
  case (Some lo)
  with assms obtain p where p: "finalize L lo = Returned p"
    by (cases "finalize L lo") (simp_all add: emitAndFinalize_def andThen_def)
  obtain e' lo' where "p = (e', lo')" by (cases p)
  with assms Some p that show ?thesis
    by (auto simp: emitAndFinalize_def andThen_def)
qed

lemma finalize_Parent_fields:
  "NotifyLoaded P = NotifyLoaded Q \<Longrightarrow> NotifyFinalized P = NotifyFinalized Q \<Longrightarrow>
   NotifyFreed P = NotifyFreed Q \<Longrightarrow> finalize P this = finalize Q this"
  by (simp add: finalize_def finalize_link_def finalize_load_def Let_def split: option.splits)

lemma finalize_layerWith: "finalize (layerWith r objs) this = finalize (plainLayer r) this"
  by (rule finalize_Parent_fields) (simp_all add: layerWith_def)

lemma emitAndFinalize_layerWith_1:
  "finalize (plainLayer r) lo = Returned (e, lo') \<Longrightarrow>
   emitAndFinalize (layerWith r [(k, lo)]) k = Returned (e, layerWith r [(k, lo')])"
  using finalize_layerWith [of r "[(k, lo)]" lo]
  by (simp add: emitAndFinalize_def andThen_def layerWith_def)

section \<open>Properties of the layer operations\<close>

lemma buildInitialSymbolTable_zero:
  "buildInitialSymbolTable obj tab = Returned tab' \<Longrightarrow>
   (\<forall>n s. tab n = Some s \<longrightarrow> getAddress s = 0) \<Longrightarrow>
   (\<forall>n s. tab' n = Some s \<longrightarrow> getAddress s = 0)"
proof (induction obj arbitrary: tab)
  case Nil
  then show ?case by simp
next
  case (Cons Symbol rest)
  show ?case
  proof (cases "symFlags Symbol")
    case None
    with Cons show ?thesis by simp
  next
    case (Some flags)
    show ?thesis
    proof (cases "flags AND SF_Undefined \<noteq> 0")
      case True
      with Some Cons show ?thesis by simp
    next
      case False
      show ?thesis
      proof (cases "symName Symbol")
        case None
        with Some False Cons.prems show ?thesis by simp
      next
        case (Some SymbolName)
        let ?tab1 = "if tab SymbolName = None
                     then tab(SymbolName \<mapsto> JITEvaluatedSymbol 0 (fromObjectSymbol Symbol))
                     else tab"
        from Some \<open>symFlags Symbol = Some flags\<close> False Cons.prems(1)
        have run: "buildInitialSymbolTable rest ?tab1 = Returned tab'" by simp
        from Cons.prems(2) have "\<forall>n s. ?tab1 n = Some s \<longrightarrow> getAddress s = 0" by auto
        with Cons.IH [OF run] show ?thesis by blast
      qed
    qed
  qed
qed

lemma createLinkedObject_Returned:
  assumes "createLinkedObject k obj res pas = Returned lo"
  shows "\<not> Finalized lo" and "ObjKey lo = k" and "PFC lo \<noteq> None" and "Calls lo = []"
    and "\<forall>n s. SymbolTable lo n = Some s \<longrightarrow> getAddress s = 0"
proof -
  from assms obtain tab where tab: "buildInitialSymbolTable obj Map.empty = Returned tab"
    by (cases "buildInitialSymbolTable obj Map.empty") (simp_all add: createLinkedObject_def andThen_def)
  with assms have lo: "lo = \<lparr> SymbolTable = tab, Finalized = False, ObjKey = k, ObjForNotify = None,
         PFC = Some \<lparr> Obj = obj, Resolver = res, PFC_ProcessAllSections = pas, RTDyld = False \<rparr>,
         Calls = [] \<rparr>"
    by (simp add: createLinkedObject_def andThen_def)
  then show "\<not> Finalized lo" and "ObjKey lo = k" and "PFC lo \<noteq> None" and "Calls lo = []"
    by simp_all
  from buildInitialSymbolTable_zero [OF tab] lo
  show "\<forall>n s. SymbolTable lo n = Some s \<longrightarrow> getAddress s = 0" by simp
qed

lemma plainLayer_layerWith: "plainLayer r = layerWith r []"
  by (simp add: layerWith_def plainLayer_def newLayer_def)

lemma addObject_layerWith:
  "\<not> map_count k objs \<Longrightarrow>
   addObject (layerWith r objs) k (bufferDefining n) =
     Returned (Success, layerWith r (map_assign k (freshObject k n r) objs))"
  by (simp add: addObject_def bufferDefining_def layerWith_def plainLayer_def newLayer_def
      createLinkedObject_fresh andThen_def)

lemma PFC_freshObject: "PFC (freshObject k n res) = Some (freshPFC n res)"
  by (simp add: freshObject_def freshPFC_def)

lemma finalize_mark_fresh:
  "finalize_mark (freshPFC n res) (freshObject k n res) = markedObject k n res"
  by (simp add: finalize_mark_def freshPFC_def freshObject_def markedObject_def)

lemma finalize_marked_placing:
  "finalize (plainLayer r) (markedObject k n (placing n a None)) = Returned (Success, linkedObject k n a)"
  by (simp add: finalize_def markedObject_def finalize_mark_def finalize_load_def finalize_link_def
      placing_def plainLayer_def newLayer_def linkedObject_def)

lemma finalize_load_marked:
  "finalize_load (plainLayer r) (freshPFC n (placing n a e)) (markedObject k n (placing n a e))
     = loadedObject k n a (placing n a e)"
  by (simp add: finalize_load_def freshPFC_def markedObject_def loadedObject_def placing_def
      plainLayer_def newLayer_def)

lemma list_all_assign:
  "list_all P m \<Longrightarrow> P (k, v) \<Longrightarrow> list_all P (map_assign k v m)"
  by (induction m) auto

lemma list_all_erase: "list_all P m \<Longrightarrow> list_all P (map_erase k m)"
  by (induction m) auto

lemma sorted_distinct_keys:
  "sorted_wrt (<) (map fst (m :: ('k :: linorder \<times> 'v) list)) \<Longrightarrow> distinct (map fst m)"
  by (induction m) auto

lemma layerInv_newLayer: "layerInv (newLayer gr nl nf nfr)"
  by (simp add: layerInv_def newLayer_def)

lemma addObject_Returned:
  assumes "addObject L k ObjBuffer = Returned (e, L')"
  shows "(\<exists>err. createObjectFile ObjBuffer = Inl err \<and> e = StringError err \<and> L' = L)
       \<or> (\<exists>obj lo. createObjectFile ObjBuffer = Inr obj \<and> \<not> map_count k (LinkedObjects L)
            \<and> createLinkedObject k obj (GetResources L k) (ProcessAllSections L) = Returned lo
            \<and> e = Success \<and> L' = L \<lparr> LinkedObjects := map_assign k lo (LinkedObjects L) \<rparr>)"
proof (cases "createObjectFile ObjBuffer")
  case (Inl err)
  with assms show ?thesis by (auto simp: addObject_def)
next
  case (Inr obj)
  show ?thesis
  proof (cases "map_count k (LinkedObjects L)")
    case True
    with Inr assms show ?thesis by (simp add: addObject_def)
  next
    case False
    show ?thesis
    proof (cases "createLinkedObject k obj (GetResources L k) (ProcessAllSections L)")
      case (AssertionFailed m)
      with Inr False assms show ?thesis by (simp add: addObject_def andThen_def)
    next
      case (Returned lo)
      with Inr False assms show ?thesis by (auto simp: addObject_def andThen_def)
    qed
  qed
qed

lemma layerInv_addObject:
  assumes "layerInv L" and "addObject L k ObjBuffer = Returned (e, L')"
  shows "layerInv L'"
  using addObject_Returned [OF assms(2)]
proof (elim disjE exE conjE)
  fix err assume "L' = L"
  with assms(1) show ?thesis by simp
next
  fix obj lo
  assume c: "createLinkedObject k obj (GetResources L k) (ProcessAllSections L) = Returned lo"
    and L': "L' = L \<lparr> LinkedObjects := map_assign k lo (LinkedObjects L) \<rparr>"
  from c have "ObjKey lo = k" by (rule createLinkedObject_Returned)
  with assms(1) L' show ?thesis
    by (simp add: layerInv_def sorted_assign list_all_assign)
qed

lemma removeObject_Returned:
  assumes "removeObject L k = Returned (e, L')"
  obtains lo where "map_at k (LinkedObjects L) = Some lo" and "e = Success"
    and "L' = L \<lparr> LinkedObjects := map_erase k (LinkedObjects L), Freed := Freed L @ destroy L lo \<rparr>"
  using assms by (cases "map_at k (LinkedObjects L)") (auto simp: removeObject_def)

lemma layerInv_removeObject:
  assumes "layerInv L" and "removeObject L k = Returned (e, L')"
  shows "layerInv L'" and "\<not> map_count k (LinkedObjects L')"
proof -
  from assms(2) obtain lo where
    L': "L' = L \<lparr> LinkedObjects := map_erase k (LinkedObjects L), Freed := Freed L @ destroy L lo \<rparr>"
    by (rule removeObject_Returned)
  with assms(1) show "layerInv L'"
    by (simp add: layerInv_def sorted_erase list_all_erase)
  from assms(1) L' show "\<not> map_count k (LinkedObjects L')"
    by (simp add: layerInv_def map_count_erase)
qed

lemma layerInv_emitAndFinalize:
  assumes "layerInv L" and "emitAndFinalize L k = Returned (e, L')"
  shows "layerInv L'"
proof -
  from assms(2) obtain lo lo' where at: "map_at k (LinkedObjects L) = Some lo"
    and fin: "finalize L lo = Returned (e, lo')"
    and L': "L' = L \<lparr> LinkedObjects := map_assign k lo' (LinkedObjects L) \<rparr>"
    by (rule emitAndFinalize_Returned)
  from at have "(k, lo) \<in> set (LinkedObjects L)" by (rule map_at_in_set)
  with assms(1) have "ObjKey lo = k" by (auto simp: layerInv_def list_all_iff)
  with fin have "ObjKey lo' = k" using finalize_Returned(2) by fastforce
  with assms(1) L' show ?thesis
    by (simp add: layerInv_def sorted_assign list_all_assign)
qed

lemma takeError_getSymbol: "takeError (getSymbol lo Name E) = Success"
  by (simp add: getSymbol_def split: option.splits)

lemma findSymbol_loop_Cons:
  "findSymbol_loop ((k, lo) # rest) Name E =
     (if toBool (getSymbol lo Name E) then getSymbol lo Name E else findSymbol_loop rest Name E)"
  by (simp add: takeError_getSymbol Let_def)

lemma toBool_getSymbol:
  "toBool (getSymbol lo Name E) \<longleftrightarrow>
     (\<exists>s. SymbolTable lo Name = Some s \<and> (isExported (getFlags s) \<or> \<not> E)
          \<and> (Finalized lo \<longrightarrow> getAddress s \<noteq> 0))"
  by (auto simp: getSymbol_def split: option.splits)

lemma findSymbol_loop_not_error: "findSymbol_loop m Name E \<noteq> ErrorSymbol err"
proof (induction m)
  case Nil
  show ?case by simp
next
  case (Cons p m)
  obtain k lo where p: "p = (k, lo)" by (cases p)
  have "getSymbol lo Name E \<noteq> ErrorSymbol err"
    by (simp add: getSymbol_def split: option.splits)
  with Cons p show ?case by (simp add: findSymbol_loop_Cons del: findSymbol_loop.simps)
qed

lemma findSymbol_loop_first:
  assumes "sorted_wrt (<) (map fst m)"
  shows "(findSymbol_loop m Name E = Null \<and>
            list_all (\<lambda>(k, lo). \<not> toBool (getSymbol lo Name E)) m)
       \<or> (\<exists>k lo. map_at k m = Some lo \<and> toBool (getSymbol lo Name E)
            \<and> findSymbol_loop m Name E = getSymbol lo Name E
            \<and> list_all (\<lambda>(k', lo'). toBool (getSymbol lo' Name E) \<longrightarrow> k \<le> k') m)"
  using assms
proof (induction m)
  case Nil
  show ?case by simp
next
  case (Cons p m)
  obtain a b where p: "p = (a, b)" by (cases p)
  from Cons.prems p have tail: "sorted_wrt (<) (map fst m)"
    and above: "\<forall>x \<in> set m. a < fst x" by simp_all
  show ?case
  proof (cases "toBool (getSymbol b Name E)")
    case True
    from above have "list_all (\<lambda>(k', lo'). toBool (getSymbol lo' Name E) \<longrightarrow> a \<le> k') m"
      by (auto simp: list_all_iff)
    with True p have "map_at a (p # m) = Some b \<and> toBool (getSymbol b Name E)
        \<and> findSymbol_loop (p # m) Name E = getSymbol b Name E
        \<and> list_all (\<lambda>(k', lo'). toBool (getSymbol lo' Name E) \<longrightarrow> a \<le> k') (p # m)"
      by (simp add: findSymbol_loop_Cons del: findSymbol_loop.simps)
    then show ?thesis by blast
  next
    case False
    with p have step: "findSymbol_loop (p # m) Name E = findSymbol_loop m Name E"
      by (simp add: findSymbol_loop_Cons del: findSymbol_loop.simps)
    from Cons.IH [OF tail] show ?thesis
    proof (elim disjE exE conjE)
      assume "findSymbol_loop m Name E = Null"
        and "list_all (\<lambda>(k, lo). \<not> toBool (getSymbol lo Name E)) m"
      with False p step show ?thesis by simp
    next
      fix k lo
      assume at: "map_at k m = Some lo" and t: "toBool (getSymbol lo Name E)"
        and r: "findSymbol_loop m Name E = getSymbol lo Name E"
        and least: "list_all (\<lambda>(k', lo'). toBool (getSymbol lo' Name E) \<longrightarrow> k \<le> k') m"
      from at have "(k, lo) \<in> set m" by (rule map_at_in_set)
      with above have "a < k" by fastforce
      with at p have "map_at k (p # m) = Some lo" by simp
      moreover from least False p
      have "list_all (\<lambda>(k', lo'). toBool (getSymbol lo' Name E) \<longrightarrow> k \<le> k') (p # m)" by simp
      ultimately show ?thesis using t r step by auto
    qed
  qed
qed

lemma finalize_fresh_failing_nothing:
  "finalize (plainLayer r) (freshObject k n (placingNothing (Some msg))) =
     Returned (StringError msg, failedObject k n 0 (placingNothing (Some msg)))"
  by (simp add: finalize_def freshObject_def finalize_mark_def finalize_load_def finalize_link_def
      placingNothing_def plainLayer_def newLayer_def failedObject_def)

lemma layerInv_layerWith:
  "layerInv (layerWith r objs) \<longleftrightarrow>
     sorted_wrt (<) (map fst objs) \<and> list_all (\<lambda>(k, lo). ObjKey lo = k) objs"
  by (simp add: layerInv_def layerWith_def)

lemma LinkedObjects_layerWith: "LinkedObjects (layerWith r objs) = objs"
  by (simp add: layerWith_def)

lemma ObjKey_samples:
  "ObjKey (freshObject k n r) = k" "ObjKey (linkedObject k n a) = k"
  "ObjKey (failedObject k n a r) = k"
  by (simp_all add: freshObject_def linkedObject_def failedObject_def)

lemma getSymbol_samples:
  "getSymbol (freshObject k n r) n E = Materializer k n exported"
  "getSymbol (linkedObject k n a) n E = Evaluated (JITEvaluatedSymbol a exported)"
  "getSymbol (failedObject k n a r) n E = Evaluated (JITEvaluatedSymbol a exported)"
  by (simp_all add: getSymbol_def freshObject_def linkedObject_def failedObject_def exported_def)

lemma toBool_findSymbol_loop:
  "toBool (findSymbol_loop m Name E) \<longleftrightarrow> list_ex (\<lambda>(k, lo). toBool (getSymbol lo Name E)) m"
proof (induction m)
  case Nil
  show ?case by simp
next
  case (Cons p m)
  obtain k lo where p: "p = (k, lo)" by (cases p)
  with Cons show ?case by (simp add: findSymbol_loop_Cons del: findSymbol_loop.simps)
qed

lemma findSymbol_loop_Null:
  "\<not> list_ex (\<lambda>(k, lo). toBool (getSymbol lo Name E)) m \<Longrightarrow> findSymbol_loop m Name E = Null"
proof (induction m)
  case Nil
  show ?case by simp
next
  case (Cons p m)
  obtain k lo where p: "p = (k, lo)" by (cases p)
  with Cons show ?case by (simp add: findSymbol_loop_Cons del: findSymbol_loop.simps)
qed

lemma findSymbol_loop_append:
  "findSymbol_loop (m @ m') Name E =
     (if toBool (findSymbol_loop m Name E) then findSymbol_loop m Name E
      else findSymbol_loop m' Name E)"
proof (induction m)
  case Nil
  show ?case by simp
next
  case (Cons p m)
  obtain k lo where p: "p = (k, lo)" by (cases p)
  with Cons show ?case by (simp add: findSymbol_loop_Cons del: findSymbol_loop.simps)
qed

lemma list_ex_assign:
  "\<not> map_count k m \<Longrightarrow> list_ex P m \<Longrightarrow> list_ex P (map_assign k v m)"
  by (induction m) auto

lemma map_assign_last:
  "list_all (\<lambda>(k', v'). k' < k) m \<Longrightarrow> map_assign k v m = m @ [(k, v)]"
  by (induction m) auto

lemma map_at_list_ex:
  "map_at k m = Some v \<Longrightarrow> P (k, v) \<Longrightarrow> list_ex P m"
  by (induction m) (auto split: if_splits)

lemma addObject_perKeyLayer:
  "\<not> map_count k objs \<Longrightarrow>
   addObject (perKeyLayer n objs) k (bufferDefining n) =
     Returned (Success, perKeyLayer n (map_assign k (freshObject k n (placing n (0x1000 * k) None)) objs))"
  by (simp add: addObject_def bufferDefining_def perKeyLayer_def newLayer_def
      createLinkedObject_fresh andThen_def)

lemma finalize_perKeyLayer: "finalize (perKeyLayer n objs) this = finalize (plainLayer r) this"
  by (rule finalize_Parent_fields) (simp_all add: perKeyLayer_def plainLayer_def newLayer_def)

lemma emitAndFinalize_perKeyLayer:
  assumes "map_at k objs = Some (freshObject k n (placing n a None))"
  shows "emitAndFinalize (perKeyLayer n' objs) k =
           Returned (Success, perKeyLayer n' (map_assign k (linkedObject k n a) objs))"
proof -
  have "finalize (perKeyLayer n' objs) (freshObject k n (placing n a None))
          = Returned (Success, linkedObject k n a)"
    using finalize_perKeyLayer [where r = "placing n a None"]
      finalize_fresh_placing [where r = "placing n a None"]
    by simp
  with assms show ?thesis
    by (simp add: emitAndFinalize_def andThen_def perKeyLayer_def)
qed

lemma list_ex_erase:
  "sorted_wrt (<) (map fst (m :: ('k :: linorder \<times> 'v) list)) \<Longrightarrow>
   list_ex P (map_erase k m) \<longleftrightarrow> list_ex (\<lambda>(k', v). k' \<noteq> k \<and> P (k', v)) m"
proof (induction m)
  case Nil
  show ?case by simp
next
  case (Cons p m)
  obtain a b where p: "p = (a, b)" by (cases p)
  from Cons.prems p have tail: "sorted_wrt (<) (map fst m)"
    and above: "\<forall>x \<in> set m. a < fst x" by simp_all
  show ?case
  proof (cases "k = a")
    case True
    from above have "\<forall>x \<in> set m. fst x \<noteq> a" by auto
    then have "list_ex P m \<longleftrightarrow> list_ex (\<lambda>(k', v). k' \<noteq> a \<and> P (k', v)) m"
      by (fastforce simp: list_ex_iff)
    with True p show ?thesis by simp
  next
    case False
    with Cons.IH [OF tail] p show ?thesis by simp
  qed
qed

lemma getSymbol_absent: "SymbolTable lo Name = None \<Longrightarrow> getSymbol lo Name E = Null"
  by (simp add: getSymbol_def)

section \<open>Finalization on first lookup and on request\<close>






text \<open>
  Claim C7. \<open>finalize\<close> is one-shot: after a \<open>finalize\<close> that returned success a second
  explicit call, directly or through \<open>emitAndFinalize\<close>, fails the assertion on the
  pre-finalize contents instead of succeeding. A materializer does not run \<open>finalize\<close> a
  second time: once a materializer has returned, every further materializer run on the object
  returns the table's address and leaves the object, and with it the history of its calls,
  as it is, whereas each run of \<open>finalize\<close> adds to that history.
\<close>

theorem finalize_one_shot:
  "(finalize Parent this = Returned (Success, this') \<longrightarrow>
      finalize Parent this' = AssertionFailed ''mapSectionAddress called on finalized LinkedObject'')
   \<and> (emitAndFinalize L k = Returned (Success, L') \<longrightarrow>
        emitAndFinalize L' k = AssertionFailed ''mapSectionAddress called on finalized LinkedObject'')
   \<and> (getSymbolMaterializer Parent n1 this = Returned (r1, this1) \<longrightarrow>
        getSymbolMaterializer Parent n2 this1 = Returned (Inr (cachedAddr (getSymbol this1 n2 False)), this1))
   \<and> (finalize Parent this = Returned (e, this2) \<longrightarrow> length (Calls this) < length (Calls this2))"
proof (intro conjI impI)
  assume "finalize Parent this = Returned (Success, this')"
  then have "PFC this' = None" by (rule finalize_Success_PFC)
  then show "finalize Parent this' = AssertionFailed ''mapSectionAddress called on finalized LinkedObject''"
    by (rule finalize_None)
next
  assume a: "emitAndFinalize L k = Returned (Success, L')"
  then obtain lo lo' where lo: "finalize L lo = Returned (Success, lo')"
    and L': "L' = L \<lparr> LinkedObjects := map_assign k lo' (LinkedObjects L) \<rparr>"
    by (rule emitAndFinalize_Returned)
  from lo have "PFC lo' = None" by (rule finalize_Success_PFC)
  then have "finalize L' lo' = AssertionFailed ''mapSectionAddress called on finalized LinkedObject''"
    by (rule finalize_None)
  with L' show "emitAndFinalize L' k = AssertionFailed ''mapSectionAddress called on finalized LinkedObject''"
    by (simp add: emitAndFinalize_def map_at_assign andThen_def)
next
  assume "getSymbolMaterializer Parent n1 this = Returned (r1, this1)"
  then have "Finalized this1" by (rule materializer_Returned_Finalized)
  then show "getSymbolMaterializer Parent n2 this1 = Returned (Inr (cachedAddr (getSymbol this1 n2 False)), this1)"
    by (rule materializer_Finalized)
next
  assume "finalize Parent this = Returned (e, this2)"
  then show "length (Calls this) < length (Calls this2)" by (rule finalize_extends_Calls)
qed

text \<open>The theorem at a sample input.\<close>

theorem finalize_one_shot_witness:
  "finalize (plainLayer (placing ''f'' 0x1000 None)) (freshObject 1 ''f'' (placing ''f'' 0x1000 None))
     = Returned (Success, linkedObject 1 ''f'' 0x1000)
   \<and> finalize (plainLayer (placing ''f'' 0x1000 None)) (linkedObject 1 ''f'' 0x1000)
     = AssertionFailed ''mapSectionAddress called on finalized LinkedObject''
   \<and> emitAndFinalize
       (layerWith (placing ''f'' 0x1000 None) [(1, freshObject 1 ''f'' (placing ''f'' 0x1000 None))]) 1
     = Returned (Success, layerWith (placing ''f'' 0x1000 None) [(1, linkedObject 1 ''f'' 0x1000)])
   \<and> emitAndFinalize (layerWith (placing ''f'' 0x1000 None) [(1, linkedObject 1 ''f'' 0x1000)]) 1
     = AssertionFailed ''mapSectionAddress called on finalized LinkedObject''
   \<and> getSymbolMaterializer (plainLayer (placing ''f'' 0x1000 None)) ''f''
       (freshObject 1 ''f'' (placing ''f'' 0x1000 None))
     = Returned (Inr 0x1000, linkedObject 1 ''f'' 0x1000)
   \<and> getSymbolMaterializer (plainLayer (placing ''f'' 0x1000 None)) ''f'' (linkedObject 1 ''f'' 0x1000)
     = Returned (Inr 0x1000, linkedObject 1 ''f'' 0x1000)
   \<and> length (Calls (freshObject 1 ''f'' (placing ''f'' 0x1000 None)))
       < length (Calls (linkedObject 1 ''f'' 0x1000))"
proof -
  let ?r = "placing ''f'' 0x1000 None"
  let ?P = "plainLayer ?r"
  let ?o = "freshObject 1 ''f'' ?r"
  let ?o' = "linkedObject 1 ''f'' 0x1000"
  have f: "finalize ?P ?o = Returned (Success, ?o')" by (rule finalize_fresh_placing)
  have e: "emitAndFinalize (layerWith ?r [(1, ?o)]) 1 = Returned (Success, layerWith ?r [(1, ?o')])"
    using f by (rule emitAndFinalize_layerWith_1)
  have nf: "\<not> Finalized ?o" by (simp add: freshObject_def)
  have g: "cachedAddr (getSymbol ?o' ''f'' False) = 0x1000"
    by (simp add: getSymbol_def linkedObject_def)
  have m: "getSymbolMaterializer ?P ''f'' ?o = Returned (Inr 0x1000, ?o')"
    using materializer_not_Finalized [OF nf f, of "''f''"] g by simp
  from finalize_one_shot [where Parent = ?P and this = ?o and this' = ?o'
      and L = "layerWith ?r [(1, ?o)]" and k = 1 and L' = "layerWith ?r [(1, ?o')]"
      and ?n1.0 = "''f''" and ?r1.0 = "Inr 0x1000" and ?this1.0 = ?o' and ?n2.0 = "''f''"
      and e = Success and ?this2.0 = ?o'] f e m g
  show ?thesis by simp
qed

section \<open>The symbol table before and after finalization\<close>

text \<open>
  Claim C3, as amended. The constructor yields an object that is not finalized, and at all
  times an object that is not finalized has address 0 in every entry of its symbol table: a
  lookup of a name of the table yields a materializer (the null symbol when the exported-only
  filter rejects the entry), never an address. After a \<open>finalize\<close> that returned success no
  lookup yields a materializer; the table is the initial one overwritten with the symbol
  table of \<^verbatim>\<open>RuntimeDyld\<close>: a name that table reports carries the reported address, a name
  it does not report keeps its initial entry, with address 0.
\<close>

theorem symbol_table_before_and_after_finalize:
  "(createLinkedObject k obj res pas = Returned lo \<longrightarrow> \<not> Finalized lo \<and> objInv lo)
   \<and> (finalize Parent this = Returned (e, this') \<longrightarrow> Finalized this' \<and> objInv this')
   \<and> (objInv this \<and> \<not> Finalized this \<and> SymbolTable this Name = Some SymEntry \<longrightarrow>
        getAddress SymEntry = 0 \<and>
        getSymbol this Name False = Materializer (ObjKey this) Name (getFlags SymEntry) \<and>
        getSymbol this Name True =
          (if isExported (getFlags SymEntry)
           then Materializer (ObjKey this) Name (getFlags SymEntry) else Null))
   \<and> (PFC this = Some pfc \<and> finalize Parent this = Returned (Success, this') \<longrightarrow>
        SymbolTable this' = SymbolTable this ++ dyldSymbolTable (Resolver pfc) \<and>
        (\<forall>n s. dyldSymbolTable (Resolver pfc) n = Some s \<longrightarrow>
           getSymbol this' n False = Evaluated s) \<and>
        (\<forall>n. dyldSymbolTable (Resolver pfc) n = None \<longrightarrow>
           SymbolTable this' n = SymbolTable this n) \<and>
        (\<forall>n E k' n' f. getSymbol this' n E \<noteq> Materializer k' n' f))"
proof (intro conjI impI)
  assume c: "createLinkedObject k obj res pas = Returned lo"
  from createLinkedObject_Returned [OF c]
  show "\<not> Finalized lo" and "objInv lo" by (simp_all add: objInv_def)
next
  assume f: "finalize Parent this = Returned (e, this')"
  then show "Finalized this'" by (rule finalize_Returned)
  then show "objInv this'" by (simp add: objInv_def)
next
  assume a: "objInv this \<and> \<not> Finalized this \<and> SymbolTable this Name = Some SymEntry"
  then show "getAddress SymEntry = 0" by (auto simp: objInv_def)
  from a show "getSymbol this Name False = Materializer (ObjKey this) Name (getFlags SymEntry)"
    by (simp add: getSymbol_def)
  from a show "getSymbol this Name True =
          (if isExported (getFlags SymEntry)
           then Materializer (ObjKey this) Name (getFlags SymEntry) else Null)"
    by (simp add: getSymbol_def)
next
  assume a: "PFC this = Some pfc \<and> finalize Parent this = Returned (Success, this')"
  then have "finalize_link Parent pfc (finalize_load Parent pfc (finalize_mark pfc this)) = (Success, this')"
    by (clarsimp simp: finalize_def)
  then have this': "this' = snd (finalize_link Parent pfc (finalize_load Parent pfc (finalize_mark pfc this)))"
    by simp
  from a have F: "Finalized this'" using finalize_Returned(1) by blast
  show tab: "SymbolTable this' = SymbolTable this ++ dyldSymbolTable (Resolver pfc)"
    by (simp add: this' finalize_link_fields finalize_load_fields finalize_mark_fields)
  show "\<forall>n s. dyldSymbolTable (Resolver pfc) n = Some s \<longrightarrow> getSymbol this' n False = Evaluated s"
    using F by (simp add: getSymbol_def tab map_add_def)
  show "\<forall>n. dyldSymbolTable (Resolver pfc) n = None \<longrightarrow> SymbolTable this' n = SymbolTable this n"
    by (simp add: tab map_add_def)
  show "\<forall>n E k' n' f. getSymbol this' n E \<noteq> Materializer k' n' f"
    using F by (simp add: getSymbol_Finalized)
qed

text \<open>The theorem at a sample input.\<close>

theorem symbol_table_before_and_after_finalize_witness:
  "createLinkedObject 1 [definedSymbol ''f''] (placing ''f'' 0x1000 None) False
     = Returned (freshObject 1 ''f'' (placing ''f'' 0x1000 None))
   \<and> getSymbol (freshObject 1 ''f'' (placing ''f'' 0x1000 None)) ''f'' True
     = Materializer 1 ''f'' exported
   \<and> finalize (plainLayer (placing ''f'' 0x1000 None)) (freshObject 1 ''f'' (placing ''f'' 0x1000 None))
     = Returned (Success, linkedObject 1 ''f'' 0x1000)
   \<and> getSymbol (linkedObject 1 ''f'' 0x1000) ''f'' False
     = Evaluated (JITEvaluatedSymbol 0x1000 exported)"
proof -
  let ?r = "placing ''f'' 0x1000 None"
  let ?o = "freshObject 1 ''f'' ?r"
  let ?o' = "linkedObject 1 ''f'' 0x1000"
  have c: "createLinkedObject 1 [definedSymbol ''f''] ?r False = Returned ?o"
    by (rule createLinkedObject_fresh)
  have f: "finalize (plainLayer ?r) ?o = Returned (Success, ?o')"
    by (rule finalize_fresh_placing)
  have t: "SymbolTable ?o ''f'' = Some (JITEvaluatedSymbol 0 exported)"
    by (simp add: freshObject_def)
  have d: "dyldSymbolTable (Resolver (freshPFC ''f'' ?r)) ''f'' = Some (JITEvaluatedSymbol 0x1000 exported)"
    by (simp add: freshPFC_def placing_def)
  have x: "isExported exported" by (simp add: exported_def)
  note inst = symbol_table_before_and_after_finalize [where k = 1 and obj = "[definedSymbol ''f'']"
      and res = ?r and pas = False and lo = ?o and Parent = "plainLayer ?r" and this = ?o
      and this' = ?o' and e = Success and Name = "''f''"
      and SymEntry = "JITEvaluatedSymbol 0 exported" and pfc = "freshPFC ''f'' ?r"]
  from inst c have inv: "objInv ?o" and nf: "\<not> Finalized ?o" by simp_all
  from inst inv nf t x have g1: "getSymbol ?o ''f'' True = Materializer 1 ''f'' exported"
    by (simp add: freshObject_def)
  from inst f d have g2: "getSymbol ?o' ''f'' False = Evaluated (JITEvaluatedSymbol 0x1000 exported)"
    by (simp add: PFC_freshObject)
  from c g1 f g2 show ?thesis by simp
qed

text \<open>
  Claim C3 as stated fails: the object defines the exported symbol \<open>f\<close>, \<^verbatim>\<open>RuntimeDyld\<close>
  reports no address for it and no error, \<open>finalize\<close> returns success, and the entry of \<open>f\<close>
  still has address 0, so that its symbol converts to false.
\<close>

theorem exported_symbol_keeps_address_0_counterexample:
  "createLinkedObject 1 [definedSymbol ''f''] (placingNothing None) False
     = Returned (freshObject 1 ''f'' (placingNothing None))
   \<and> finalize (plainLayer (placingNothing None)) (freshObject 1 ''f'' (placingNothing None))
     = Returned (Success, linkedObject 1 ''f'' 0)
   \<and> SymbolTable (linkedObject 1 ''f'' 0) ''f'' = Some (JITEvaluatedSymbol 0 (JITSymbolFlags True))
   \<and> getSymbol (linkedObject 1 ''f'' 0) ''f'' True = Evaluated (JITEvaluatedSymbol 0 (JITSymbolFlags True))
   \<and> toBool (getSymbol (linkedObject 1 ''f'' 0) ''f'' True) = False"
  by (simp add: createLinkedObject_fresh finalize_fresh_placingNothing)
     (simp add: linkedObject_def getSymbol_def exported_def)

section \<open>A finalization that fails\<close>

text \<open>
  Claim C2, as amended. When \<^verbatim>\<open>RuntimeDyld\<close> reports an error, \<open>finalize\<close> returns that error
  after \<^verbatim>\<open>finalizeWithMemoryManagerLocking\<close> has been called, and undoes nothing: the object
  stays marked finalized, keeps its pre-finalize contents, and its symbol table holds the
  addresses \<^verbatim>\<open>RuntimeDyld\<close> reported, which every later lookup of these names returns.
\<close>

theorem finalize_error_keeps_state:
  assumes "PFC this = Some pfc" and "dyldError (Resolver pfc) = Some msg"
  shows "\<exists>this'.
      finalize Parent this = Returned (StringError msg, this')
    \<and> Finalized this'
    \<and> PFC this' = Some (pfc \<lparr> RTDyld := True \<rparr>)
    \<and> SymbolTable this' = SymbolTable this ++ dyldSymbolTable (Resolver pfc)
    \<and> Calls this' = Calls this @ [LoadObject] @
         (if NotifyLoaded Parent then [NotifyLoadedCall (ObjKey this)] else []) @
         [FinalizeWithMemoryManagerLocking]
    \<and> (\<forall>n s. dyldSymbolTable (Resolver pfc) n = Some s \<longrightarrow>
          getSymbol this' n False = Evaluated s \<and>
          getSymbolMaterializer Parent n this' = Returned (Inr (getAddress s), this'))"
proof -
  define this' where "this' = snd (finalize_link Parent pfc (finalize_load Parent pfc (finalize_mark pfc this)))"
  have fin: "finalize Parent this = Returned (StringError msg, this')"
    using assms by (simp add: finalize_def this'_def finalize_link_def Let_def)
  have F: "Finalized this'" using fin by (rule finalize_Returned)
  have pfc: "PFC this' = Some (pfc \<lparr> RTDyld := True \<rparr>)"
    using assms(2) by (simp add: this'_def finalize_link_def finalize_load_def finalize_mark_def Let_def)
  have tab: "SymbolTable this' = SymbolTable this ++ dyldSymbolTable (Resolver pfc)"
    by (simp add: this'_def finalize_link_fields finalize_load_fields finalize_mark_fields)
  have calls: "Calls this' = Calls this @ [LoadObject] @
         (if NotifyLoaded Parent then [NotifyLoadedCall (ObjKey this)] else []) @
         [FinalizeWithMemoryManagerLocking]"
    using assms(2) by (simp add: this'_def finalize_link_def finalize_load_def finalize_mark_def Let_def)
  have look: "\<forall>n s. dyldSymbolTable (Resolver pfc) n = Some s \<longrightarrow>
          getSymbol this' n False = Evaluated s \<and>
          getSymbolMaterializer Parent n this' = Returned (Inr (getAddress s), this')"
    using F by (simp add: materializer_Finalized getSymbol_def tab map_add_def)
  from fin F pfc tab calls look show ?thesis by blast
qed

text \<open>The theorem at a sample input.\<close>

theorem finalize_error_keeps_state_witness:
  "finalize (plainLayer unresolvedResources) (freshObject 1 ''run_addonB'' unresolvedResources)
     = Returned (StringError ''Symbols not found: [ missing_fn ]'',
                 failedObject 1 ''run_addonB'' 0x1000 unresolvedResources)
   \<and> getSymbol (failedObject 1 ''run_addonB'' 0x1000 unresolvedResources) ''run_addonB'' False
     = Evaluated (JITEvaluatedSymbol 0x1000 exported)"
proof -
  let ?o = "freshObject 1 ''run_addonB'' unresolvedResources"
  let ?o' = "failedObject 1 ''run_addonB'' 0x1000 unresolvedResources"
  have h1: "PFC ?o = Some (freshPFC ''run_addonB'' unresolvedResources)" by (rule PFC_freshObject)
  have h2: "dyldError (Resolver (freshPFC ''run_addonB'' unresolvedResources))
              = Some ''Symbols not found: [ missing_fn ]''"
    by (simp add: freshPFC_def unresolvedResources_def placing_def)
  have f: "finalize (plainLayer unresolvedResources) ?o
             = Returned (StringError ''Symbols not found: [ missing_fn ]'', ?o')"
    unfolding unresolvedResources_def by (rule finalize_fresh_failing)
  have d: "dyldSymbolTable (Resolver (freshPFC ''run_addonB'' unresolvedResources)) ''run_addonB''
             = Some (JITEvaluatedSymbol 0x1000 exported)"
    by (simp add: freshPFC_def unresolvedResources_def placing_def)
  from finalize_error_keeps_state [OF h1 h2, of "plainLayer unresolvedResources"] f d
  show ?thesis by auto
qed

text \<open>
  Claim C2 as stated fails: \<open>run_addonB\<close> is placed at \<open>0x1000\<close>, the reference to
  \<open>missing_fn\<close> is not resolved and \<open>emitAndFinalize\<close> returns the error; the layer then
  still resolves \<open>run_addonB\<close> to the address \<open>0x1000\<close>.
\<close>

theorem failed_finalize_leaves_addresses_counterexample:
  "addObject (plainLayer unresolvedResources) 1 (bufferDefining ''run_addonB'')
     = Returned (Success, layerWith unresolvedResources [(1, freshObject 1 ''run_addonB'' unresolvedResources)])
   \<and> emitAndFinalize (layerWith unresolvedResources [(1, freshObject 1 ''run_addonB'' unresolvedResources)]) 1
     = Returned (StringError ''Symbols not found: [ missing_fn ]'',
         layerWith unresolvedResources [(1, failedObject 1 ''run_addonB'' 0x1000 unresolvedResources)])
   \<and> findSymbol (layerWith unresolvedResources [(1, failedObject 1 ''run_addonB'' 0x1000 unresolvedResources)])
        ''run_addonB'' True
     = Evaluated (JITEvaluatedSymbol 0x1000 (JITSymbolFlags True))
   \<and> Calls (failedObject 1 ''run_addonB'' 0x1000 unresolvedResources)
     = [LoadObject, FinalizeWithMemoryManagerLocking]"
proof -
  have a: "addObject (plainLayer unresolvedResources) 1 (bufferDefining ''run_addonB'')
     = Returned (Success, layerWith unresolvedResources [(1, freshObject 1 ''run_addonB'' unresolvedResources)])"
    by (simp add: plainLayer_layerWith addObject_layerWith)
  have f: "finalize (plainLayer unresolvedResources) (freshObject 1 ''run_addonB'' unresolvedResources)
             = Returned (StringError ''Symbols not found: [ missing_fn ]'',
                 failedObject 1 ''run_addonB'' 0x1000 unresolvedResources)"
    unfolding unresolvedResources_def by (rule finalize_fresh_failing)
  have s: "findSymbol (layerWith unresolvedResources [(1, failedObject 1 ''run_addonB'' 0x1000 unresolvedResources)])
        ''run_addonB'' True
     = Evaluated (JITEvaluatedSymbol 0x1000 (JITSymbolFlags True))"
    by (simp add: findSymbol_def layerWith_def getSymbol_def failedObject_def exported_def)
  have c: "Calls (failedObject 1 ''run_addonB'' 0x1000 unresolvedResources)
     = [LoadObject, FinalizeWithMemoryManagerLocking]"
    by (simp add: failedObject_def)
  from a emitAndFinalize_layerWith_1 [OF f] s c show ?thesis by simp
qed

section \<open>Lookups while a finalization is in progress\<close>

text \<open>
  Claim C6, as amended. \<open>finalize\<close> sets \<^verbatim>\<open>Finalized\<close> before it loads or links anything. In
  each state the object has while \<open>finalize\<close> is at work (\<open>mid\<close>: after the mark, and after the load)
  a lookup does not enter \<open>finalize\<close> again: \<open>getSymbol\<close> yields no materializer, and a
  materializer made earlier returns the address the table holds at that moment and leaves
  the object as it is. An explicit call of \<open>finalize\<close> in such a state is not refused: it
  runs the load and the link again, and the only error it can return is the one
  \<^verbatim>\<open>RuntimeDyld\<close> reports.
\<close>

theorem lookup_inside_finalize:
  assumes "PFC this = Some pfc"
    and "mid = finalize_mark pfc this \<or> mid = finalize_load Parent pfc (finalize_mark pfc this)"
  shows "finalize Parent this =
           Returned (finalize_link Parent pfc (finalize_load Parent pfc (finalize_mark pfc this)))
    \<and> Finalized mid
    \<and> getSymbol mid Name E \<noteq> Materializer k n f
    \<and> getSymbolMaterializer Parent Name mid = Returned (Inr (cachedAddr (getSymbol mid Name False)), mid)
    \<and> (\<exists>again. finalize Parent mid =
          Returned (case dyldError (Resolver pfc) of None \<Rightarrow> Success | Some msg \<Rightarrow> StringError msg,
                    again)
          \<and> length (Calls mid) < length (Calls again))"
proof -
  have fin: "finalize Parent this =
           Returned (finalize_link Parent pfc (finalize_load Parent pfc (finalize_mark pfc this)))"
    using assms(1) by (rule finalize_Some)
  have F: "Finalized mid"
    using assms(2) by (auto simp: finalize_mark_fields finalize_load_fields)
  have P: "PFC mid = Some (pfc \<lparr> RTDyld := True \<rparr>)"
    using assms(2) by (auto simp: finalize_mark_fields finalize_load_fields)
  define res where "res = finalize_link Parent (pfc \<lparr> RTDyld := True \<rparr>)
      (finalize_load Parent (pfc \<lparr> RTDyld := True \<rparr>) (finalize_mark (pfc \<lparr> RTDyld := True \<rparr>) mid))"
  have again: "finalize Parent mid = Returned (fst res, snd res)"
    using P by (simp add: finalize_Some res_def)
  have err: "fst res = (case dyldError (Resolver pfc) of None \<Rightarrow> Success | Some msg \<Rightarrow> StringError msg)"
    by (simp add: res_def finalize_link_def Let_def split: option.splits)
  have len: "length (Calls mid) < length (Calls (snd res))"
    using again by (rule finalize_extends_Calls)
  from F have g: "getSymbol mid Name E \<noteq> Materializer k n f"
    by (rule getSymbol_Finalized)
  from F have m: "getSymbolMaterializer Parent Name mid = Returned (Inr (cachedAddr (getSymbol mid Name False)), mid)"
    by (rule materializer_Finalized)
  from again err len have "\<exists>again. finalize Parent mid =
          Returned (case dyldError (Resolver pfc) of None \<Rightarrow> Success | Some msg \<Rightarrow> StringError msg,
                    again)
          \<and> length (Calls mid) < length (Calls again)"
    by auto
  with fin F g m show ?thesis by blast
qed

text \<open>The theorem at a sample input.\<close>

theorem lookup_inside_finalize_witness:
  "finalize_mark (freshPFC ''f'' (placing ''f'' 0x1000 None)) (freshObject 1 ''f'' (placing ''f'' 0x1000 None))
     = markedObject 1 ''f'' (placing ''f'' 0x1000 None)
   \<and> Finalized (markedObject 1 ''f'' (placing ''f'' 0x1000 None))
   \<and> getSymbolMaterializer (plainLayer (placing ''f'' 0x1000 None)) ''f'' (markedObject 1 ''f'' (placing ''f'' 0x1000 None))
     = Returned (Inr 0, markedObject 1 ''f'' (placing ''f'' 0x1000 None))
   \<and> finalize_load (plainLayer (placing ''f'' 0x1000 None)) (freshPFC ''f'' (placing ''f'' 0x1000 None))
        (markedObject 1 ''f'' (placing ''f'' 0x1000 None))
     = loadedObject 1 ''f'' 0x1000 (placing ''f'' 0x1000 None)
   \<and> getSymbolMaterializer (plainLayer (placing ''f'' 0x1000 None)) ''f''
        (loadedObject 1 ''f'' 0x1000 (placing ''f'' 0x1000 None))
     = Returned (Inr 0x1000, loadedObject 1 ''f'' 0x1000 (placing ''f'' 0x1000 None))"
proof -
  let ?r = "placing ''f'' 0x1000 None"
  let ?P = "plainLayer ?r"
  let ?o = "freshObject 1 ''f'' ?r"
  let ?pfc = "freshPFC ''f'' ?r"
  let ?m1 = "markedObject 1 ''f'' ?r"
  let ?m2 = "loadedObject 1 ''f'' 0x1000 ?r"
  have h: "PFC ?o = Some ?pfc" by (rule PFC_freshObject)
  have e1: "finalize_mark ?pfc ?o = ?m1" by (rule finalize_mark_fresh)
  have e2: "finalize_load ?P ?pfc ?m1 = ?m2" by (rule finalize_load_marked)
  have c1: "cachedAddr (getSymbol ?m1 ''f'' False) = 0"
    by (simp add: getSymbol_def markedObject_def)
  have c2: "cachedAddr (getSymbol ?m2 ''f'' False) = 0x1000"
    by (simp add: getSymbol_def loadedObject_def)
  have d1: "?m1 = finalize_mark ?pfc ?o \<or> ?m1 = finalize_load ?P ?pfc (finalize_mark ?pfc ?o)"
    using e1 by simp
  have d2: "?m2 = finalize_mark ?pfc ?o \<or> ?m2 = finalize_load ?P ?pfc (finalize_mark ?pfc ?o)"
    using e1 e2 by simp
  from lookup_inside_finalize [OF h d1, of "''f''"] lookup_inside_finalize [OF h d2, of "''f''"]
    e1 e2 c1 c2
  show ?thesis by simp
qed

text \<open>
  Claim C6 as stated fails: on the object marked by a \<open>finalize\<close> in progress, a second
  \<open>finalize\<close> returns success and a materializer returns the placeholder address 0; neither
  returns an error.
\<close>

theorem reentered_finalize_no_cycle_error_counterexample:
  "PFC (freshObject 1 ''f'' (placing ''f'' 0x1000 None)) = Some (freshPFC ''f'' (placing ''f'' 0x1000 None))
   \<and> finalize_mark (freshPFC ''f'' (placing ''f'' 0x1000 None)) (freshObject 1 ''f'' (placing ''f'' 0x1000 None))
     = markedObject 1 ''f'' (placing ''f'' 0x1000 None)
   \<and> finalize (plainLayer (placing ''f'' 0x1000 None)) (markedObject 1 ''f'' (placing ''f'' 0x1000 None))
     = Returned (Success, linkedObject 1 ''f'' 0x1000)
   \<and> getSymbolMaterializer (plainLayer (placing ''f'' 0x1000 None)) ''f'' (markedObject 1 ''f'' (placing ''f'' 0x1000 None))
     = Returned (Inr 0, markedObject 1 ''f'' (placing ''f'' 0x1000 None))"
proof -
  have "Finalized (markedObject 1 ''f'' (placing ''f'' 0x1000 None))"
    by (simp add: markedObject_def)
  then have "getSymbolMaterializer (plainLayer (placing ''f'' 0x1000 None)) ''f'' (markedObject 1 ''f'' (placing ''f'' 0x1000 None))
     = Returned (Inr (cachedAddr (getSymbol (markedObject 1 ''f'' (placing ''f'' 0x1000 None)) ''f'' False)),
         markedObject 1 ''f'' (placing ''f'' 0x1000 None))"
    by (rule materializer_Finalized)
  moreover have "cachedAddr (getSymbol (markedObject 1 ''f'' (placing ''f'' 0x1000 None)) ''f'' False) = 0"
    by (simp add: getSymbol_def markedObject_def)
  ultimately show ?thesis
    by (simp add: PFC_freshObject finalize_mark_fresh finalize_marked_placing)
qed

section \<open>Module keys\<close>

text \<open>
  Claim C8. \<open>addObject\<close> under a key that is in use does not succeed: it fails the assertion
  \<^verbatim>\<open>VModuleKey already in use\<close>, unless the buffer is no object file, in which case it returns
  that error before the assertion is reached. Keys are unique at all times: the new layer
  satisfies \<open>layerInv\<close>, each operation that returns keeps it, it makes the keys distinct,
  and \<open>removeObject\<close> frees the key.
\<close>

theorem module_keys_unique:
  "(map_count k (LinkedObjects L) \<longrightarrow>
      addObject L k ObjBuffer = AssertionFailed ''VModuleKey already in use''
      \<or> (\<exists>err. createObjectFile ObjBuffer = Inl err \<and>
                addObject L k ObjBuffer = Returned (StringError err, L)))
   \<and> layerInv (newLayer gr nl nf nfr)
   \<and> (layerInv L \<and> addObject L k ObjBuffer = Returned (e, L') \<longrightarrow> layerInv L')
   \<and> (layerInv L \<and> removeObject L k = Returned (e, L') \<longrightarrow>
        layerInv L' \<and> \<not> map_count k (LinkedObjects L'))
   \<and> (layerInv L \<and> emitAndFinalize L k = Returned (e, L') \<longrightarrow> layerInv L')
   \<and> (layerInv L \<longrightarrow> distinct (map fst (LinkedObjects L)))"
proof (intro conjI impI)
  assume "map_count k (LinkedObjects L)"
  then show "addObject L k ObjBuffer = AssertionFailed ''VModuleKey already in use''
      \<or> (\<exists>err. createObjectFile ObjBuffer = Inl err \<and>
                addObject L k ObjBuffer = Returned (StringError err, L))"
    by (cases "createObjectFile ObjBuffer") (simp_all add: addObject_def)
next
  show "layerInv (newLayer gr nl nf nfr)" by (rule layerInv_newLayer)
next
  assume "layerInv L \<and> addObject L k ObjBuffer = Returned (e, L')"
  then show "layerInv L'" using layerInv_addObject by blast
next
  assume a: "layerInv L \<and> removeObject L k = Returned (e, L')"
  then show "layerInv L'" using layerInv_removeObject(1) by blast
  from a show "\<not> map_count k (LinkedObjects L')" using layerInv_removeObject(2) by blast
next
  assume "layerInv L \<and> emitAndFinalize L k = Returned (e, L')"
  then show "layerInv L'" using layerInv_emitAndFinalize by blast
next
  assume "layerInv L"
  then show "distinct (map fst (LinkedObjects L))"
    by (simp add: layerInv_def sorted_distinct_keys)
qed

text \<open>The theorem at a sample input.\<close>

theorem module_keys_unique_witness:
  "addObject (plainLayer (placing ''f'' 0x1000 None)) 1 (bufferDefining ''f'')
     = Returned (Success, layerWith (placing ''f'' 0x1000 None)
                            [(1, freshObject 1 ''f'' (placing ''f'' 0x1000 None))])
   \<and> layerInv (layerWith (placing ''f'' 0x1000 None) [(1, freshObject 1 ''f'' (placing ''f'' 0x1000 None))])
   \<and> addObject (layerWith (placing ''f'' 0x1000 None) [(1, freshObject 1 ''f'' (placing ''f'' 0x1000 None))])
        1 (bufferDefining ''g'')
     = AssertionFailed ''VModuleKey already in use''
   \<and> emitAndFinalize (layerWith (placing ''f'' 0x1000 None) [(1, freshObject 1 ''f'' (placing ''f'' 0x1000 None))]) 1
     = Returned (Success, layerWith (placing ''f'' 0x1000 None) [(1, linkedObject 1 ''f'' 0x1000)])
   \<and> layerInv (layerWith (placing ''f'' 0x1000 None) [(1, linkedObject 1 ''f'' 0x1000)])
   \<and> removeObject (layerWith (placing ''f'' 0x1000 None) [(1, linkedObject 1 ''f'' 0x1000)]) 1
     = Returned (Success, (layerWith (placing ''f'' 0x1000 None) []) \<lparr> Freed := [DeregisterEHFrames] \<rparr>)
   \<and> layerInv ((layerWith (placing ''f'' 0x1000 None) []) \<lparr> Freed := [DeregisterEHFrames] \<rparr>)
   \<and> distinct (map fst [(1 :: VModuleKey, freshObject 1 ''f'' (placing ''f'' 0x1000 None))])"
proof -
  let ?r = "placing ''f'' 0x1000 None"
  let ?L0 = "plainLayer ?r"
  let ?L1 = "layerWith ?r [(1, freshObject 1 ''f'' ?r)]"
  let ?L2 = "layerWith ?r [(1, linkedObject 1 ''f'' 0x1000)]"
  let ?L3 = "(layerWith ?r []) \<lparr> Freed := [DeregisterEHFrames] \<rparr>"
  have a: "addObject ?L0 1 (bufferDefining ''f'') = Returned (Success, ?L1)"
    by (simp add: plainLayer_layerWith addObject_layerWith)
  have f: "emitAndFinalize ?L1 1 = Returned (Success, ?L2)"
    using finalize_fresh_placing by (rule emitAndFinalize_layerWith_1)
  have r: "removeObject ?L2 1 = Returned (Success, ?L3)"
    by (simp add: removeObject_def layerWith_def destroy_def plainLayer_def newLayer_def)
  have c: "map_count 1 (LinkedObjects ?L1)" by (simp add: layerWith_def)
  have cr: "createObjectFile (bufferDefining ''g'') = Inr [definedSymbol ''g'']"
    by (simp add: bufferDefining_def)
  have i0: "layerInv ?L0"
    unfolding plainLayer_def by (rule module_keys_unique [THEN conjunct2, THEN conjunct1])
  have i1: "layerInv ?L1"
    by (rule module_keys_unique [where L = ?L0 and k = 1 and ObjBuffer = "bufferDefining ''f''"
          and e = Success and L' = ?L1, THEN conjunct2, THEN conjunct2, THEN conjunct1, THEN mp])
       (simp add: i0 a)
  have i2: "layerInv ?L2"
    by (rule module_keys_unique [where L = ?L1 and k = 1 and e = Success and L' = ?L2,
          THEN conjunct2, THEN conjunct2, THEN conjunct2, THEN conjunct2, THEN conjunct1, THEN mp])
       (simp add: i1 f)
  have i3: "layerInv ?L3 \<and> \<not> map_count 1 (LinkedObjects ?L3)"
    by (rule module_keys_unique [where L = ?L2 and k = 1 and e = Success and L' = ?L3,
          THEN conjunct2, THEN conjunct2, THEN conjunct2, THEN conjunct1, THEN mp])
       (simp add: i2 r)
  have d: "distinct (map fst (LinkedObjects ?L1))"
    by (rule module_keys_unique [where L = ?L1,
          THEN conjunct2, THEN conjunct2, THEN conjunct2, THEN conjunct2, THEN conjunct2, THEN mp])
       (rule i1)
  have "addObject ?L1 1 (bufferDefining ''g'') = AssertionFailed ''VModuleKey already in use''
      \<or> (\<exists>err. createObjectFile (bufferDefining ''g'') = Inl err \<and>
                addObject ?L1 1 (bufferDefining ''g'') = Returned (StringError err, ?L1))"
    by (rule module_keys_unique [where L = ?L1 and k = 1 and ObjBuffer = "bufferDefining ''g''",
          THEN conjunct1, THEN mp]) (rule c)
  with cr have x: "addObject ?L1 1 (bufferDefining ''g'') = AssertionFailed ''VModuleKey already in use''"
    by simp
  from a i1 x f i2 r i3 d show ?thesis by (simp add: LinkedObjects_layerWith)
qed

section \<open>The order of lookup\<close>

text \<open>
  Claim C10, as amended. \<open>findSymbol\<close> goes through the objects in ascending key order and
  returns the symbol of the first object whose \<open>getSymbol\<close> result converts to true, that is
  the object with the least such key; it returns the null symbol when there is none, and
  never an error. The result of \<open>getSymbol\<close> converts to true exactly when the table has the
  name, the entry passes the exported-only filter, and the object is not finalized or the
  entry's address is not 0.
\<close>

theorem findSymbol_first_non_null:
  assumes "layerInv L"
  shows "((findSymbol L Name E = Null \<and>
            list_all (\<lambda>(k, lo). \<not> toBool (getSymbol lo Name E)) (LinkedObjects L))
          \<or> (\<exists>k lo. map_at k (LinkedObjects L) = Some lo \<and> toBool (getSymbol lo Name E)
               \<and> findSymbol L Name E = getSymbol lo Name E
               \<and> list_all (\<lambda>(k', lo'). toBool (getSymbol lo' Name E) \<longrightarrow> k \<le> k')
                    (LinkedObjects L)))
    \<and> list_all (\<lambda>(k, lo). toBool (getSymbol lo Name E) \<longleftrightarrow>
          (\<exists>s. SymbolTable lo Name = Some s \<and> (isExported (getFlags s) \<or> \<not> E)
               \<and> (Finalized lo \<longrightarrow> getAddress s \<noteq> 0))) (LinkedObjects L)
    \<and> findSymbol L Name E \<noteq> ErrorSymbol err"
proof (intro conjI)
  from assms have "sorted_wrt (<) (map fst (LinkedObjects L))" by (simp add: layerInv_def)
  then show "(findSymbol L Name E = Null \<and>
            list_all (\<lambda>(k, lo). \<not> toBool (getSymbol lo Name E)) (LinkedObjects L))
          \<or> (\<exists>k lo. map_at k (LinkedObjects L) = Some lo \<and> toBool (getSymbol lo Name E)
               \<and> findSymbol L Name E = getSymbol lo Name E
               \<and> list_all (\<lambda>(k', lo'). toBool (getSymbol lo' Name E) \<longrightarrow> k \<le> k')
                    (LinkedObjects L))"
    unfolding findSymbol_def by (rule findSymbol_loop_first)
next
  show "list_all (\<lambda>(k, lo). toBool (getSymbol lo Name E) \<longleftrightarrow>
          (\<exists>s. SymbolTable lo Name = Some s \<and> (isExported (getFlags s) \<or> \<not> E)
               \<and> (Finalized lo \<longrightarrow> getAddress s \<noteq> 0))) (LinkedObjects L)"
    using toBool_getSymbol by (simp add: list_all_iff split_beta)
next
  show "findSymbol L Name E \<noteq> ErrorSymbol err"
    by (simp add: findSymbol_def findSymbol_loop_not_error)
qed

text \<open>The theorem at a sample input.\<close>

theorem findSymbol_first_non_null_witness:
  "layerInv (layerWith (placingNothing None) [(1, linkedObject 1 ''f'' 0x1000), (2, linkedObject 2 ''f'' 0x2000)])
   \<and> findSymbol (layerWith (placingNothing None) [(1, linkedObject 1 ''f'' 0x1000), (2, linkedObject 2 ''f'' 0x2000)])
        ''f'' True
     = Evaluated (JITEvaluatedSymbol 0x1000 exported)"
proof -
  let ?o1 = "linkedObject 1 ''f'' 0x1000"
  let ?o2 = "linkedObject 2 ''f'' 0x2000"
  let ?L = "layerWith (placingNothing None) [(1, ?o1), (2, ?o2)]"
  have inv: "layerInv ?L" by (simp add: layerInv_layerWith ObjKey_samples)
  have g1: "getSymbol ?o1 ''f'' True = Evaluated (JITEvaluatedSymbol 0x1000 exported)"
    by (simp add: getSymbol_samples)
  from findSymbol_first_non_null [OF inv, where Name = "''f''" and E = True and err = "[]"]
  have "(findSymbol ?L ''f'' True = Null \<and>
            list_all (\<lambda>(k, lo). \<not> toBool (getSymbol lo ''f'' True)) (LinkedObjects ?L))
          \<or> (\<exists>k lo. map_at k (LinkedObjects ?L) = Some lo \<and> toBool (getSymbol lo ''f'' True)
               \<and> findSymbol ?L ''f'' True = getSymbol lo ''f'' True
               \<and> list_all (\<lambda>(k', lo'). toBool (getSymbol lo' ''f'' True) \<longrightarrow> k \<le> k')
                    (LinkedObjects ?L))"
    by (rule conjunct1)
  then have "findSymbol ?L ''f'' True = Evaluated (JITEvaluatedSymbol 0x1000 exported)"
  proof (elim disjE exE conjE)
    assume "list_all (\<lambda>(k, lo). \<not> toBool (getSymbol lo ''f'' True)) (LinkedObjects ?L)"
    with g1 show ?thesis by (simp add: LinkedObjects_layerWith)
  next
    fix k lo
    assume at: "map_at k (LinkedObjects ?L) = Some lo"
      and eq: "findSymbol ?L ''f'' True = getSymbol lo ''f'' True"
      and least: "list_all (\<lambda>(k', lo'). toBool (getSymbol lo' ''f'' True) \<longrightarrow> k \<le> k')
                    (LinkedObjects ?L)"
    from least g1 have "k \<le> 1" by (simp add: LinkedObjects_layerWith)
    then have "k \<noteq> 2" by (auto simp: word_le_nat_alt)
    with at have "lo = ?o1" by (simp add: LinkedObjects_layerWith split: if_splits)
    with eq g1 show ?thesis by simp
  qed
  with inv show ?thesis by simp
qed

text \<open>
  Claim C10 as stated fails: module 1 defines the exported symbol \<open>f\<close> and its
  \<open>finalize\<close> failed in the load, which leaves it finalized with \<open>f\<close> at address 0; module 2
  defines \<open>f\<close> too. The table of module 1, the module with the smallest key, contains
  \<open>f\<close>, yet \<open>findSymbol\<close> returns the symbol of module 2.
\<close>

theorem findSymbol_skips_address_0_counterexample:
  "addObject (plainLayer loadFailure) 1 (bufferDefining ''f'')
     = Returned (Success, layerWith loadFailure [(1, freshObject 1 ''f'' loadFailure)])
   \<and> emitAndFinalize (layerWith loadFailure [(1, freshObject 1 ''f'' loadFailure)]) 1
     = Returned (StringError ''Unable to load object'',
                 layerWith loadFailure [(1, failedObject 1 ''f'' 0 loadFailure)])
   \<and> addObject (layerWith loadFailure [(1, failedObject 1 ''f'' 0 loadFailure)]) 2 (bufferDefining ''f'')
     = Returned (Success, layerWith loadFailure
         [(1, failedObject 1 ''f'' 0 loadFailure), (2, freshObject 2 ''f'' loadFailure)])
   \<and> SymbolTable (failedObject 1 ''f'' 0 loadFailure) ''f'' = Some (JITEvaluatedSymbol 0 (JITSymbolFlags True))
   \<and> getSymbol (failedObject 1 ''f'' 0 loadFailure) ''f'' True
     = Evaluated (JITEvaluatedSymbol 0 (JITSymbolFlags True))
   \<and> findSymbol (layerWith loadFailure
         [(1, failedObject 1 ''f'' 0 loadFailure), (2, freshObject 2 ''f'' loadFailure)]) ''f'' True
     = Materializer 2 ''f'' (JITSymbolFlags True)"
proof -
  have a: "addObject (plainLayer loadFailure) 1 (bufferDefining ''f'')
     = Returned (Success, layerWith loadFailure [(1, freshObject 1 ''f'' loadFailure)])"
    by (simp add: plainLayer_layerWith addObject_layerWith)
  have f: "finalize (plainLayer loadFailure) (freshObject 1 ''f'' loadFailure)
     = Returned (StringError ''Unable to load object'', failedObject 1 ''f'' 0 loadFailure)"
    unfolding loadFailure_def by (rule finalize_fresh_failing_nothing)
  have b: "addObject (layerWith loadFailure [(1, failedObject 1 ''f'' 0 loadFailure)]) 2 (bufferDefining ''f'')
     = Returned (Success, layerWith loadFailure
         [(1, failedObject 1 ''f'' 0 loadFailure), (2, freshObject 2 ''f'' loadFailure)])"
    by (simp add: addObject_layerWith)
  have t: "SymbolTable (failedObject 1 ''f'' 0 loadFailure) ''f'' = Some (JITEvaluatedSymbol 0 (JITSymbolFlags True))"
    by (simp add: failedObject_def exported_def)
  have s: "findSymbol (layerWith loadFailure
         [(1, failedObject 1 ''f'' 0 loadFailure), (2, freshObject 2 ''f'' loadFailure)]) ''f'' True
     = Materializer 2 ''f'' (JITSymbolFlags True)"
    by (simp add: findSymbol_def LinkedObjects_layerWith findSymbol_loop_Cons getSymbol_samples
        del: findSymbol_loop.simps) (simp add: exported_def)
  have g: "getSymbol (failedObject 1 ''f'' 0 loadFailure) ''f'' True
     = Evaluated (JITEvaluatedSymbol 0 (JITSymbolFlags True))"
    by (simp add: getSymbol_samples) (simp add: exported_def)
  from a emitAndFinalize_layerWith_1 [OF f] b t g s show ?thesis by simp
qed

section \<open>Two modules defining the same name\<close>

text \<open>
  Claim C1, as amended. \<open>addObject\<close> does not look at the symbol names other modules
  define: with a buffer that holds an object file, a key that is not in use and symbols
  whose names can be read, it succeeds whatever the object defines. The object is then live
  under its key next to the others, the entry of every other key is unchanged, so that
  \<open>findSymbolIn\<close> on an earlier module's key returns what it returned before, and a name
  \<open>findSymbol\<close> resolved before is still resolved: to the same symbol when the new key is
  larger than every key in use.
\<close>

theorem addObject_has_no_collision_check:
  assumes "createObjectFile ObjBuffer = Inr obj"
    and "\<not> map_count k (LinkedObjects L)"
    and "createLinkedObject k obj (GetResources L k) (ProcessAllSections L) = Returned lo"
    and "L' = L \<lparr> LinkedObjects := map_assign k lo (LinkedObjects L) \<rparr>"
  shows "addObject L k ObjBuffer = Returned (Success, L')
    \<and> map_at k (LinkedObjects L') = Some lo
    \<and> (k' \<noteq> k \<longrightarrow> map_at k' (LinkedObjects L') = map_at k' (LinkedObjects L)
                  \<and> findSymbolIn L' k' Name E = findSymbolIn L k' Name E)
    \<and> (toBool (findSymbol L Name E) \<longrightarrow> toBool (findSymbol L' Name E))
    \<and> (list_all (\<lambda>(k', lo'). k' < k) (LinkedObjects L) \<and> toBool (findSymbol L Name E) \<longrightarrow>
         findSymbol L' Name E = findSymbol L Name E)"
proof (intro conjI impI)
  show "addObject L k ObjBuffer = Returned (Success, L')"
    using assms by (simp add: addObject_def andThen_def)
  show "map_at k (LinkedObjects L') = Some lo"
    using assms(4) by (simp add: map_at_assign)
next
  assume "k' \<noteq> k"
  then show "map_at k' (LinkedObjects L') = map_at k' (LinkedObjects L)"
    using assms(4) by (simp add: map_at_assign)
  then show "findSymbolIn L' k' Name E = findSymbolIn L k' Name E"
    by (simp add: findSymbolIn_def)
next
  assume "toBool (findSymbol L Name E)"
  then have "list_ex (\<lambda>(k, lo). toBool (getSymbol lo Name E)) (LinkedObjects L)"
    by (simp add: findSymbol_def toBool_findSymbol_loop)
  with assms(2) have "list_ex (\<lambda>(k, lo). toBool (getSymbol lo Name E)) (map_assign k lo (LinkedObjects L))"
    by (rule list_ex_assign)
  with assms(4) show "toBool (findSymbol L' Name E)"
    by (simp add: findSymbol_def toBool_findSymbol_loop)
next
  assume a: "list_all (\<lambda>(k', lo'). k' < k) (LinkedObjects L) \<and> toBool (findSymbol L Name E)"
  then have "map_assign k lo (LinkedObjects L) = LinkedObjects L @ [(k, lo)]"
    by (simp add: map_assign_last)
  with a assms(4) show "findSymbol L' Name E = findSymbol L Name E"
    by (simp add: findSymbol_def findSymbol_loop_append del: findSymbol_loop.simps)
qed

text \<open>The theorem at a sample input.\<close>

theorem addObject_has_no_collision_check_witness:
  "addObject (perKeyLayer ''shared_sym'' [(1, linkedObject 1 ''shared_sym'' 0x1000)]) 2
        (bufferDefining ''shared_sym'')
     = Returned (Success, perKeyLayer ''shared_sym''
         [(1, linkedObject 1 ''shared_sym'' 0x1000),
          (2, freshObject 2 ''shared_sym'' (placing ''shared_sym'' 0x2000 None))])
   \<and> findSymbolIn (perKeyLayer ''shared_sym''
         [(1, linkedObject 1 ''shared_sym'' 0x1000),
          (2, freshObject 2 ''shared_sym'' (placing ''shared_sym'' 0x2000 None))]) 1 ''shared_sym'' True
     = Returned (Evaluated (JITEvaluatedSymbol 0x1000 exported))
   \<and> findSymbol (perKeyLayer ''shared_sym''
         [(1, linkedObject 1 ''shared_sym'' 0x1000),
          (2, freshObject 2 ''shared_sym'' (placing ''shared_sym'' 0x2000 None))]) ''shared_sym'' True
     = Evaluated (JITEvaluatedSymbol 0x1000 exported)"
proof -
  let ?n = "''shared_sym''"
  let ?o1 = "linkedObject 1 ?n 0x1000"
  let ?o2 = "freshObject 2 ?n (placing ?n 0x2000 None)"
  let ?L = "perKeyLayer ?n [(1, ?o1)]"
  let ?L' = "perKeyLayer ?n [(1, ?o1), (2, ?o2)]"
  have h1: "createObjectFile (bufferDefining ?n) = Inr [definedSymbol ?n]"
    by (simp add: bufferDefining_def)
  have h2: "\<not> map_count 2 (LinkedObjects ?L)" by (simp add: perKeyLayer_def)
  have h3: "createLinkedObject 2 [definedSymbol ?n] (GetResources ?L 2) (ProcessAllSections ?L)
              = Returned ?o2"
    by (simp add: perKeyLayer_def newLayer_def createLinkedObject_fresh)
  have h4: "?L' = ?L \<lparr> LinkedObjects := map_assign 2 ?o2 (LinkedObjects ?L) \<rparr>"
    by (simp add: perKeyLayer_def)
  have b: "findSymbolIn ?L 1 ?n True = Returned (Evaluated (JITEvaluatedSymbol 0x1000 exported))"
    by (simp add: findSymbolIn_def perKeyLayer_def getSymbol_samples)
  have s: "findSymbol ?L ?n True = Evaluated (JITEvaluatedSymbol 0x1000 exported)"
    by (simp add: findSymbol_def perKeyLayer_def findSymbol_loop_Cons getSymbol_samples
        del: findSymbol_loop.simps)
  have lt: "list_all (\<lambda>(k', lo'). k' < 2) (LinkedObjects ?L)" by (simp add: perKeyLayer_def)
  from addObject_has_no_collision_check [OF h1 h2 h3 h4, where k' = 1 and Name = ?n and E = True]
    b s lt
  show ?thesis by simp
qed

text \<open>
  Claim C1 as stated fails: module 1 defines \<open>shared_sym\<close> and is finalized; adding the
  object of module 2, which defines \<open>shared_sym\<close> too, returns success, and so does
  finalizing it. Both modules are live and finalized with the same exported name.
\<close>

theorem second_definition_is_accepted_counterexample:
  "addObject (perKeyLayer ''shared_sym'' []) 1 (bufferDefining ''shared_sym'')
     = Returned (Success, perKeyLayer ''shared_sym''
         [(1, freshObject 1 ''shared_sym'' (placing ''shared_sym'' 0x1000 None))])
   \<and> emitAndFinalize (perKeyLayer ''shared_sym''
         [(1, freshObject 1 ''shared_sym'' (placing ''shared_sym'' 0x1000 None))]) 1
     = Returned (Success, perKeyLayer ''shared_sym'' [(1, linkedObject 1 ''shared_sym'' 0x1000)])
   \<and> addObject (perKeyLayer ''shared_sym'' [(1, linkedObject 1 ''shared_sym'' 0x1000)]) 2
        (bufferDefining ''shared_sym'')
     = Returned (Success, perKeyLayer ''shared_sym''
         [(1, linkedObject 1 ''shared_sym'' 0x1000),
          (2, freshObject 2 ''shared_sym'' (placing ''shared_sym'' 0x2000 None))])
   \<and> emitAndFinalize (perKeyLayer ''shared_sym''
         [(1, linkedObject 1 ''shared_sym'' 0x1000),
          (2, freshObject 2 ''shared_sym'' (placing ''shared_sym'' 0x2000 None))]) 2
     = Returned (Success, perKeyLayer ''shared_sym''
         [(1, linkedObject 1 ''shared_sym'' 0x1000), (2, linkedObject 2 ''shared_sym'' 0x2000)])
   \<and> findSymbolIn (perKeyLayer ''shared_sym''
         [(1, linkedObject 1 ''shared_sym'' 0x1000), (2, linkedObject 2 ''shared_sym'' 0x2000)])
        2 ''shared_sym'' True
     = Returned (Evaluated (JITEvaluatedSymbol 0x2000 (JITSymbolFlags True)))
   \<and> findSymbol (perKeyLayer ''shared_sym''
         [(1, linkedObject 1 ''shared_sym'' 0x1000), (2, linkedObject 2 ''shared_sym'' 0x2000)])
        ''shared_sym'' True
     = Evaluated (JITEvaluatedSymbol 0x1000 (JITSymbolFlags True))"
proof -
  let ?n = "''shared_sym''"
  have a1: "addObject (perKeyLayer ?n []) 1 (bufferDefining ?n)
     = Returned (Success, perKeyLayer ?n [(1, freshObject 1 ?n (placing ?n 0x1000 None))])"
    using addObject_perKeyLayer [where k = 1 and objs = "[]" and n = ?n] by simp
  have e1: "emitAndFinalize (perKeyLayer ?n [(1, freshObject 1 ?n (placing ?n 0x1000 None))]) 1
     = Returned (Success, perKeyLayer ?n [(1, linkedObject 1 ?n 0x1000)])"
    using emitAndFinalize_perKeyLayer [where k = 1 and n = ?n and a = "0x1000" and n' = ?n
        and objs = "[(1, freshObject 1 ?n (placing ?n 0x1000 None))]"]
    by simp
  have a2: "addObject (perKeyLayer ?n [(1, linkedObject 1 ?n 0x1000)]) 2 (bufferDefining ?n)
     = Returned (Success, perKeyLayer ?n
         [(1, linkedObject 1 ?n 0x1000), (2, freshObject 2 ?n (placing ?n 0x2000 None))])"
    using addObject_perKeyLayer [where k = 2 and objs = "[(1, linkedObject 1 ?n 0x1000)]" and n = ?n]
    by simp
  have e2: "emitAndFinalize (perKeyLayer ?n
         [(1, linkedObject 1 ?n 0x1000), (2, freshObject 2 ?n (placing ?n 0x2000 None))]) 2
     = Returned (Success, perKeyLayer ?n [(1, linkedObject 1 ?n 0x1000), (2, linkedObject 2 ?n 0x2000)])"
    using emitAndFinalize_perKeyLayer [where k = 2 and n = ?n and a = "0x2000" and n' = ?n
        and objs = "[(1, linkedObject 1 ?n 0x1000), (2, freshObject 2 ?n (placing ?n 0x2000 None))]"]
    by simp
  have s2: "findSymbolIn (perKeyLayer ?n [(1, linkedObject 1 ?n 0x1000), (2, linkedObject 2 ?n 0x2000)])
        2 ?n True = Returned (Evaluated (JITEvaluatedSymbol 0x2000 (JITSymbolFlags True)))"
    by (simp add: findSymbolIn_def perKeyLayer_def getSymbol_samples) (simp add: exported_def)
  have s1: "findSymbol (perKeyLayer ?n [(1, linkedObject 1 ?n 0x1000), (2, linkedObject 2 ?n 0x2000)])
        ?n True = Evaluated (JITEvaluatedSymbol 0x1000 (JITSymbolFlags True))"
    by (simp add: findSymbol_def perKeyLayer_def findSymbol_loop_Cons getSymbol_samples
        del: findSymbol_loop.simps) (simp add: exported_def)
  from a1 e1 a2 e2 s2 s1 show ?thesis by simp
qed

section \<open>Removing a module\<close>

text \<open>
  Claim C5, as amended. \<open>removeObject\<close> on the key of a live module removes that module and
  nothing else: the key is free, \<open>findSymbolIn\<close> on it fails the assertion, the entries of
  the other keys are unchanged. Afterwards \<open>findSymbol\<close> resolves a name exactly when one of
  the remaining modules yields a non-null symbol for it; in particular it returns the null
  symbol for a name that no remaining module's table contains, and it resolves the name
  again as soon as a live module yields a non-null symbol for it.
\<close>

theorem removeObject_removes_the_module:
  assumes "layerInv L" and "map_at k (LinkedObjects L) = Some lo"
    and "L' = L \<lparr> LinkedObjects := map_erase k (LinkedObjects L), Freed := Freed L @ destroy L lo \<rparr>"
  shows "removeObject L k = Returned (Success, L')
    \<and> \<not> map_count k (LinkedObjects L')
    \<and> findSymbolIn L' k Name E = AssertionFailed ''VModuleKey not associated with object''
    \<and> (k' \<noteq> k \<longrightarrow> map_at k' (LinkedObjects L') = map_at k' (LinkedObjects L))
    \<and> (toBool (findSymbol L' Name E) \<longleftrightarrow>
          list_ex (\<lambda>(k', lo'). k' \<noteq> k \<and> toBool (getSymbol lo' Name E)) (LinkedObjects L))
    \<and> (list_all (\<lambda>(k', lo'). k' \<noteq> k \<longrightarrow> SymbolTable lo' Name = None) (LinkedObjects L) \<longrightarrow>
          findSymbol L' Name E = Null)
    \<and> (map_at k2 (LinkedObjects L2) = Some lo2 \<and> toBool (getSymbol lo2 Name E) \<longrightarrow>
          toBool (findSymbol L2 Name E))"
proof (intro conjI impI)
  from assms(1) have sorted: "sorted_wrt (<) (map fst (LinkedObjects L))"
    by (simp add: layerInv_def)
  show "removeObject L k = Returned (Success, L')"
    using assms by (simp add: removeObject_def)
  show nc: "\<not> map_count k (LinkedObjects L')"
    using sorted assms(3) by (simp add: map_count_erase)
  then show "findSymbolIn L' k Name E = AssertionFailed ''VModuleKey not associated with object''"
    by (simp add: findSymbolIn_def map_at_None_iff [symmetric])
  show ex: "toBool (findSymbol L' Name E) \<longleftrightarrow>
          list_ex (\<lambda>(k', lo'). k' \<noteq> k \<and> toBool (getSymbol lo' Name E)) (LinkedObjects L)"
    using list_ex_erase [OF sorted, of "\<lambda>(k, lo). toBool (getSymbol lo Name E)" k] assms(3)
    by (simp add: findSymbol_def toBool_findSymbol_loop split_def)
  {
    assume "k' \<noteq> k"
    then show "map_at k' (LinkedObjects L') = map_at k' (LinkedObjects L)"
      using sorted assms(3) by (simp add: map_at_erase)
  }
  {
    assume none: "list_all (\<lambda>(k', lo'). k' \<noteq> k \<longrightarrow> SymbolTable lo' Name = None) (LinkedObjects L)"
    have "\<not> list_ex (\<lambda>(k', lo'). k' \<noteq> k \<and> toBool (getSymbol lo' Name E)) (LinkedObjects L)"
    proof
      assume "list_ex (\<lambda>(k', lo'). k' \<noteq> k \<and> toBool (getSymbol lo' Name E)) (LinkedObjects L)"
      then obtain k' lo' where "(k', lo') \<in> set (LinkedObjects L)" and "k' \<noteq> k"
        and t: "toBool (getSymbol lo' Name E)"
        by (auto simp: list_ex_iff)
      with none have "SymbolTable lo' Name = None" by (auto simp: list_all_iff)
      then have "getSymbol lo' Name E = Null" by (rule getSymbol_absent)
      with t show False by simp
    qed
    with ex have "\<not> toBool (findSymbol L' Name E)" by simp
    then have "\<not> list_ex (\<lambda>(k, lo). toBool (getSymbol lo Name E)) (LinkedObjects L')"
      by (simp add: findSymbol_def toBool_findSymbol_loop)
    then show "findSymbol L' Name E = Null"
      unfolding findSymbol_def by (rule findSymbol_loop_Null)
  }
  {
    assume "map_at k2 (LinkedObjects L2) = Some lo2 \<and> toBool (getSymbol lo2 Name E)"
    then have "list_ex (\<lambda>(k, lo). toBool (getSymbol lo Name E)) (LinkedObjects L2)"
      using map_at_list_ex [of k2 "LinkedObjects L2" lo2 "\<lambda>(k, lo). toBool (getSymbol lo Name E)"]
      by simp
    then show "toBool (findSymbol L2 Name E)"
      by (simp add: findSymbol_def toBool_findSymbol_loop)
  }
qed

text \<open>The theorem at a sample input.\<close>

theorem removeObject_removes_the_module_witness:
  "removeObject (layerWith (placingNothing None)
        [(1, linkedObject 1 ''f'' 0x1000), (2, linkedObject 2 ''g'' 0x2000)]) 1
     = Returned (Success, (layerWith (placingNothing None) [(2, linkedObject 2 ''g'' 0x2000)])
                            \<lparr> Freed := [DeregisterEHFrames] \<rparr>)
   \<and> findSymbol (layerWith (placingNothing None)
        [(1, linkedObject 1 ''f'' 0x1000), (2, linkedObject 2 ''g'' 0x2000)]) ''f'' True
     = Evaluated (JITEvaluatedSymbol 0x1000 exported)
   \<and> findSymbol ((layerWith (placingNothing None) [(2, linkedObject 2 ''g'' 0x2000)])
                    \<lparr> Freed := [DeregisterEHFrames] \<rparr>) ''f'' True
     = Null
   \<and> findSymbolIn ((layerWith (placingNothing None) [(2, linkedObject 2 ''g'' 0x2000)])
                    \<lparr> Freed := [DeregisterEHFrames] \<rparr>) 1 ''f'' True
     = AssertionFailed ''VModuleKey not associated with object''
   \<and> map_at 2 (LinkedObjects ((layerWith (placingNothing None) [(2, linkedObject 2 ''g'' 0x2000)])
                    \<lparr> Freed := [DeregisterEHFrames] \<rparr>))
     = Some (linkedObject 2 ''g'' 0x2000)"
proof -
  let ?o1 = "linkedObject 1 ''f'' 0x1000"
  let ?o2 = "linkedObject 2 ''g'' 0x2000"
  let ?L = "layerWith (placingNothing None) [(1, ?o1), (2, ?o2)]"
  let ?L' = "(layerWith (placingNothing None) [(2, ?o2)]) \<lparr> Freed := [DeregisterEHFrames] \<rparr>"
  have inv: "layerInv ?L" by (simp add: layerInv_layerWith ObjKey_samples)
  have at: "map_at 1 (LinkedObjects ?L) = Some ?o1" by (simp add: layerWith_def)
  have L': "?L' = ?L \<lparr> LinkedObjects := map_erase 1 (LinkedObjects ?L),
                        Freed := Freed ?L @ destroy ?L ?o1 \<rparr>"
    by (simp add: layerWith_def plainLayer_def newLayer_def destroy_def)
  have s: "findSymbol ?L ''f'' True = Evaluated (JITEvaluatedSymbol 0x1000 exported)"
    by (simp add: findSymbol_def LinkedObjects_layerWith findSymbol_loop_Cons getSymbol_samples
        del: findSymbol_loop.simps)
  have none: "list_all (\<lambda>(k', lo'). k' \<noteq> 1 \<longrightarrow> SymbolTable lo' ''f'' = None) (LinkedObjects ?L)"
    by (simp add: LinkedObjects_layerWith linkedObject_def)
  have old: "map_at 2 (LinkedObjects ?L) = Some ?o2" by (simp add: layerWith_def)
  have t: "toBool (getSymbol ?o1 ''f'' True)" by (simp add: getSymbol_samples)
  from removeObject_removes_the_module [OF inv at L', where Name = "''f''" and E = True and k' = 2
      and ?k2.0 = 1 and ?L2.0 = ?L and ?lo2.0 = ?o1]
    none s old at t
  show ?thesis by simp
qed

text \<open>
  Claim C5 as stated fails: modules 1 and 2 are finalized and both define \<open>shared_sym\<close>, a
  state that adding and finalizing the two objects reaches; after module 1 is removed, the
  lookup of \<open>shared_sym\<close> still resolves, to the address in module 2.
\<close>

theorem other_module_still_resolves_counterexample:
  "removeObject (perKeyLayer ''shared_sym''
        [(1, linkedObject 1 ''shared_sym'' 0x1000), (2, linkedObject 2 ''shared_sym'' 0x2000)]) 1
     = Returned (Success, (perKeyLayer ''shared_sym'' [(2, linkedObject 2 ''shared_sym'' 0x2000)])
                            \<lparr> Freed := [DeregisterEHFrames] \<rparr>)
   \<and> findSymbol ((perKeyLayer ''shared_sym'' [(2, linkedObject 2 ''shared_sym'' 0x2000)])
                    \<lparr> Freed := [DeregisterEHFrames] \<rparr>) ''shared_sym'' True
     = Evaluated (JITEvaluatedSymbol 0x2000 (JITSymbolFlags True))
   \<and> SymbolTable (linkedObject 1 ''shared_sym'' 0x1000) ''shared_sym''
     = Some (JITEvaluatedSymbol 0x1000 (JITSymbolFlags True))"
  by (simp add: removeObject_def perKeyLayer_def newLayer_def destroy_def findSymbol_def
      findSymbol_loop_Cons getSymbol_samples del: findSymbol_loop.simps)
     (simp add: linkedObject_def exported_def)

section \<open>Addons without sources\<close>

text \<open>
  Claim C9, as amended. An addon without C++ files is tolerated: \<open>setupAddon\<close> returns after
  its debug message, submits no job and registers nothing, so no completion notification and
  no diagnostic follow. An addon with C++ files whose folder is not \<^verbatim>\<open>Nodes\<close> has exactly
  one job submitted, under its key without dashes.
\<close>

theorem setupAddon_skips_empty_addon:
  "(fst (snd (loadAddon addon)) = [] \<longrightarrow>
      setupAddon loadAddon generateAddonFiles addon this =
        this \<lparr> debugOut := debugOut this @ [''Registering JIT addon'', addon] \<rparr>
      \<and> m_compiler (setupAddon loadAddon generateAddonFiles addon this) = m_compiler this
      \<and> registered (setupAddon loadAddon generateAddonFiles addon this) = registered this)
   \<and> (fst (snd (loadAddon addon)) \<noteq> [] \<and> fileName addon \<noteq> ''Nodes'' \<longrightarrow>
      m_compiler (setupAddon loadAddon generateAddonFiles addon this) =
        m_compiler this @
          [\<lparr> jobId = filter (\<lambda>c. c \<noteq> CHR ''-'') (fst (loadAddon addon)),
             jobFiles = fst (snd (loadAddon addon)),
             jobFlags = [''-I'' @ addon,
                         ''-I'' @ generateAddonFiles (fileName addon) addon (snd (snd (loadAddon addon)))] \<rparr>]
      \<and> registered (setupAddon loadAddon generateAddonFiles addon this) = registered this)"
  by (cases "loadAddon addon") (auto simp: setupAddon_def Let_def)

text \<open>The theorem at a sample input.\<close>

theorem setupAddon_skips_empty_addon_witness:
  "setupAddon emptyAddon generatedHere ''/lib/Addons/empty'' noPlugin
     = \<lparr> m_compiler = [], registered = [], debugOut = [''Registering JIT addon'', ''/lib/Addons/empty''] \<rparr>
   \<and> m_compiler (setupAddon oneFileAddon generatedHere ''/lib/Addons/one'' noPlugin)
     = [\<lparr> jobId = ''0b1c22'', jobFiles = [''/lib/Addons/one/main.cpp''],
          jobFlags = [''-I/lib/Addons/one'', ''-I/tmp/one''] \<rparr>]"
proof -
  have e: "fst (snd (emptyAddon ''/lib/Addons/empty'')) = []" by (simp add: emptyAddon_def)
  have o: "fst (snd (oneFileAddon ''/lib/Addons/one'')) \<noteq> []" by (simp add: oneFileAddon_def)
  have n: "fileName ''/lib/Addons/one'' = ''one''" by (simp add: fileName_def)
  from setupAddon_skips_empty_addon [where loadAddon = emptyAddon and addon = "''/lib/Addons/empty''"
      and generateAddonFiles = generatedHere and this = noPlugin] e
  have a: "setupAddon emptyAddon generatedHere ''/lib/Addons/empty'' noPlugin
     = \<lparr> m_compiler = [], registered = [], debugOut = [''Registering JIT addon'', ''/lib/Addons/empty''] \<rparr>"
    by (simp add: noPlugin_def)
  from setupAddon_skips_empty_addon [where loadAddon = oneFileAddon and addon = "''/lib/Addons/one''"
      and generateAddonFiles = generatedHere and this = noPlugin] o n
  have b: "m_compiler (setupAddon oneFileAddon generatedHere ''/lib/Addons/one'' noPlugin)
     = [\<lparr> jobId = ''0b1c22'', jobFiles = [''/lib/Addons/one/main.cpp''],
          jobFlags = [''-I/lib/Addons/one'', ''-I/tmp/one''] \<rparr>]"
    by (simp add: noPlugin_def oneFileAddon_def generatedHere_def)
  from a b show ?thesis by simp
qed

text \<open>
  Claim C9 as stated fails: for an addon without C++ files nothing is submitted to the
  compiler and nothing is registered; the only trace is the debug message printed for every
  addon.
\<close>

theorem empty_addon_not_reported_counterexample:
  "m_compiler (setupAddon emptyAddon generatedHere ''/lib/Addons/empty'' noPlugin) = []
   \<and> registered (setupAddon emptyAddon generatedHere ''/lib/Addons/empty'' noPlugin) = []
   \<and> debugOut (setupAddon emptyAddon generatedHere ''/lib/Addons/empty'' noPlugin)
     = [''Registering JIT addon'', ''/lib/Addons/empty'']"
  by (simp add: setupAddon_def emptyAddon_def noPlugin_def fileName_def Let_def)

end
